theory Spec2Isabelle
  imports Main
begin

section \<open>Python strings\<close>

text \<open>
  A Python \<open>str\<close> is modelled as a \<open>string\<close>; a \<open>char\<close> stands for a code point below 256.
  \<open>is_whitespace\<close> is the Unicode \<open>White_Space\<close> property on that range, which is what the
  validation library trims when \<open>str_strip_whitespace\<close> is set.
\<close>

definition is_whitespace :: "char \<Rightarrow> bool" where
  "is_whitespace c = ((of_char c :: nat) \<in> set [9, 10, 11, 12, 13, 32, 133, 160])"

definition strip_whitespace :: "string \<Rightarrow> string" where
  "strip_whitespace s = rev (dropWhile is_whitespace (rev (dropWhile is_whitespace s)))"

text \<open>\<open>sep.join(xs)\<close>\<close>

fun join :: "string \<Rightarrow> string list \<Rightarrow> string" where
  "join sep [] = []"
| "join sep [x] = x"
| "join sep (x # y # ys) = x @ sep @ join sep (y # ys)"

text \<open>\<open>str(n)\<close> for a non-negative integer\<close>

definition digit_char :: "nat \<Rightarrow> char" where
  "digit_char d = char_of (48 + d)"

fun str_nat :: "nat \<Rightarrow> string" where
  "str_nat n = (if n < 10 then [digit_char n] else str_nat (n div 10) @ [digit_char (n mod 10)])"

declare str_nat.simps [simp del]

section \<open>\<open>schema/user.py\<close>: \<open>UserValidation\<close>\<close>

text \<open>The character class \<open>[a-zA-Z0-9_]\<close>.\<close>

definition is_username_char :: "char \<Rightarrow> bool" where
  "is_username_char c =
     (let n = (of_char c :: nat)
      in (97 \<le> n \<and> n \<le> 122) \<or> (65 \<le> n \<and> n \<le> 90) \<or> (48 \<le> n \<and> n \<le> 57) \<or> n = 95)"

text \<open>
  \<open>re.match(r'^[a-zA-Z0-9_]+$', s)\<close>. Without \<open>re.MULTILINE\<close>, \<open>$\<close> matches at the end of the
  string and also just before a newline that is the last character of the string.
\<close>

definition re_match_USERNAME_PATTERN :: "string \<Rightarrow> bool" where
  "re_match_USERNAME_PATTERN s =
     (let body = (if s \<noteq> [] \<and> last s = CHR 0x0A then butlast s else s)
      in body \<noteq> [] \<and> list_all is_username_char body)"

definition ALLOWED_ROLES :: "string list" where
  "ALLOWED_ROLES = [''admin'', ''user'', ''editor'', ''viewer'']"

definition USERNAME_MIN_LENGTH :: nat where
  "USERNAME_MIN_LENGTH = 3"

definition USERNAME_MAX_LENGTH :: nat where
  "USERNAME_MAX_LENGTH = 50"

definition FULLNAME_MAX_LENGTH :: nat where
  "FULLNAME_MAX_LENGTH = 100"

definition ANONYMOUS_USERNAME :: string where
  "ANONYMOUS_USERNAME = ''anonymous''"

text \<open>A raised \<open>ValueError(msg)\<close> is \<open>Inl msg\<close>.\<close>

definition validate_username_format :: "string \<Rightarrow> string + string" where
  "validate_username_format username =
     (if \<not> re_match_USERNAME_PATTERN username
      then Inl ''Username must be alphanumeric with underscores only''
      else Inr username)"

text \<open>
  \<open>set(roles) - ALLOWED_ROLES\<close> and \<open>ALLOWED_ROLES\<close> are Python sets: the order in which
  \<open>', '.join\<close> iterates them is not specified (it depends on the hash seed of the process).
  \<open>set_order\<close> stands for that order: given the elements of a set, it lists them as the
  set is iterated.
\<close>

definition validate_roles :: "(string list \<Rightarrow> string list) \<Rightarrow> string list \<Rightarrow> string + string list" where
  "validate_roles set_order roles =
     (let invalid_roles = filter (\<lambda>r. r \<notin> set ALLOWED_ROLES) roles
      in if invalid_roles \<noteq> []
         then Inl (''Invalid roles: '' @ join '', '' (set_order invalid_roles) @ ''. '' @
                   ''Must be one of: '' @ join '', '' (set_order ALLOWED_ROLES))
         else Inr roles)"

text \<open>An iteration order lists every element of the set once.\<close>

definition iterates_sets :: "(string list \<Rightarrow> string list) \<Rightarrow> bool" where
  "iterates_sets set_order = (\<forall>xs. distinct (set_order xs) \<and> set (set_order xs) = set xs)"

section \<open>Python values and validation errors\<close>

text \<open>
  The values that travel between the request body, the models and the document store:
  parsed JSON, plus the store's identifiers and datetimes.
\<close>

datatype pyval =
    PNone
  | PBool bool
  | PInt int
  | PStr string
  | PList "pyval list"
  | PDict "(string \<times> pyval) list"
  | PObjectId nat
  | PDatetime int

type_synonym document = "(string \<times> pyval) list"

datatype loc_item = Key string | Index nat

text \<open>One line of a validation error: where, the error type, the message.\<close>

datatype line_error = LineError (loc: "loc_item list") (etype: string) (msg: string)

type_synonym verr = "string \<times> string"

definition at_loc :: "loc_item \<Rightarrow> line_error \<Rightarrow> line_error" where
  "at_loc k e = LineError (k # loc e) (etype e) (msg e)"

text \<open>
  The parts of the validation library and of the Python runtime this repository relies on but
  does not contain: the e-mail validator behind \<open>EmailStr\<close> (it returns the normalised
  address), the \<open>bool\<close> and \<open>datetime\<close> validators, the text of \<open>str(err)\<close> for a validation
  error of a model, and the order in which a set of strings is iterated.
\<close>

record pydantic =
  validate_email :: "string \<Rightarrow> verr + string"
  validate_bool :: "pyval \<Rightarrow> verr + bool"
  validate_datetime :: "pyval \<Rightarrow> verr + int"
  str_validation_error :: "string \<Rightarrow> line_error list \<Rightarrow> string"
  set_iteration :: "string list \<Rightarrow> string list"

text \<open>
  The string validator: the input must be a \<open>str\<close>; it is trimmed first when
  \<open>str_strip_whitespace\<close> is set, and the length bounds apply to the trimmed string.
\<close>

definition str_validator :: "bool \<Rightarrow> nat option \<Rightarrow> nat option \<Rightarrow> pyval \<Rightarrow> verr + string" where
  "str_validator strip min_length max_length v =
     (case v of
        PStr s \<Rightarrow>
          (let s' = (if strip then strip_whitespace s else s) in
           if (case min_length of Some m \<Rightarrow> length s' < m | None \<Rightarrow> False)
           then Inl (''string_too_short'',
                     ''String should have at least '' @ str_nat (the min_length) @ '' characters'')
           else if (case max_length of Some m \<Rightarrow> m < length s' | None \<Rightarrow> False)
           then Inl (''string_too_long'',
                     ''String should have at most '' @ str_nat (the max_length) @ '' characters'')
           else Inr s')
      | _ \<Rightarrow> Inl (''string_type'', ''Input should be a valid string''))"

text \<open>A \<open>ValueError\<close> raised by a validator of the model becomes a line of type \<open>value_error\<close>.\<close>

definition value_error :: "string \<Rightarrow> verr" where
  "value_error m = (''value_error'', ''Value error, '' @ m)"

definition after_validator :: "('a \<Rightarrow> string + 'a) \<Rightarrow> verr + 'a \<Rightarrow> verr + 'a" where
  "after_validator f r =
     (case r of
        Inl e \<Rightarrow> Inl e
      | Inr x \<Rightarrow> (case f x of Inl m \<Rightarrow> Inl (value_error m) | Inr y \<Rightarrow> Inr y))"

definition one_error :: "verr + 'a \<Rightarrow> line_error list + 'a" where
  "one_error r = (case r of Inl (t, m) \<Rightarrow> Inl [LineError [] t m] | Inr x \<Rightarrow> Inr x)"

text \<open>\<open>List[str]\<close>: the input must be a list; every item goes through the string validator and
  the errors of all items are collected, each at its index.\<close>

fun list_items :: "bool \<Rightarrow> nat \<Rightarrow> pyval list \<Rightarrow> line_error list \<times> string list" where
  "list_items strip i [] = ([], [])"
| "list_items strip i (v # vs) =
     (let (errs, xs) = list_items strip (Suc i) vs
      in case str_validator strip None None v of
           Inl (t, m) \<Rightarrow> (LineError [Index i] t m # errs, xs)
         | Inr s \<Rightarrow> (errs, s # xs))"

definition list_str_validator :: "bool \<Rightarrow> pyval \<Rightarrow> line_error list + string list" where
  "list_str_validator strip v =
     (case v of
        PList vs \<Rightarrow>
          (case list_items strip 0 vs of
             ([], xs) \<Rightarrow> Inr xs
           | (errs, _) \<Rightarrow> Inl errs)
      | _ \<Rightarrow> Inl [LineError [] ''list_type'' ''Input should be a valid list''])"

text \<open>
  A field of a model: a missing key takes the default, or is an error when the field is
  required; a present key is validated, and its errors are located at the field.
\<close>

definition model_field ::
  "document \<Rightarrow> string \<Rightarrow> 'a option \<Rightarrow> (pyval \<Rightarrow> line_error list + 'a) \<Rightarrow> line_error list + 'a" where
  "model_field d name dflt validator =
     (case map_of d name of
        None \<Rightarrow>
          (case dflt of
             None \<Rightarrow> Inl [LineError [Key name] ''missing'' ''Field required'']
           | Some x \<Rightarrow> Inr x)
      | Some v \<Rightarrow>
          (case validator v of
             Inl errs \<Rightarrow> Inl (map (at_loc (Key name)) errs)
           | Inr x \<Rightarrow> Inr x))"

definition errors_of :: "line_error list + 'a \<Rightarrow> line_error list" where
  "errors_of r = (case r of Inl errs \<Rightarrow> errs | Inr _ \<Rightarrow> [])"

definition model_type_error :: "string \<Rightarrow> line_error" where
  "model_type_error cls =
     LineError [] ''model_type''
       (''Input should be a valid dictionary or instance of '' @ cls)"

section \<open>\<open>schema/user.py\<close>: the models\<close>

record User =
  username :: string
  email :: string
  full_name :: string
  is_active :: bool
  signup_ts :: "int option"
  roles :: "string list"

text \<open>The fields of \<open>User\<close>, with \<open>str_strip_whitespace=True\<close> from the model's configuration.\<close>

definition User_username :: "pyval \<Rightarrow> line_error list + string" where
  "User_username v =
     one_error (after_validator validate_username_format
       (str_validator True (Some USERNAME_MIN_LENGTH) (Some USERNAME_MAX_LENGTH) v))"

definition User_email :: "pydantic \<Rightarrow> pyval \<Rightarrow> line_error list + string" where
  "User_email lib v =
     one_error (case str_validator True None None v of
                  Inl e \<Rightarrow> Inl e
                | Inr s \<Rightarrow> validate_email lib s)"

definition User_full_name :: "pyval \<Rightarrow> line_error list + string" where
  "User_full_name v = one_error (str_validator True None (Some FULLNAME_MAX_LENGTH) v)"

definition User_is_active :: "pydantic \<Rightarrow> pyval \<Rightarrow> line_error list + bool" where
  "User_is_active lib v = one_error (validate_bool lib v)"

definition User_signup_ts :: "pydantic \<Rightarrow> pyval \<Rightarrow> line_error list + int option" where
  "User_signup_ts lib v =
     (case v of
        PNone \<Rightarrow> Inr None
      | _ \<Rightarrow> one_error (map_sum id Some (validate_datetime lib v)))"

definition User_roles :: "pydantic \<Rightarrow> pyval \<Rightarrow> line_error list + string list" where
  "User_roles lib v =
     (case list_str_validator True v of
        Inl errs \<Rightarrow> Inl errs
      | Inr xs \<Rightarrow> one_error (after_validator (validate_roles (set_iteration lib)) (Inr xs)))"

text \<open>The model validator, run after all fields validated.\<close>

definition validate_name_requirements :: "User \<Rightarrow> string + User" where
  "validate_name_requirements self =
     (if full_name self = [] \<and> username self = ANONYMOUS_USERNAME
      then Inl ''Either full_name or a non-anonymous username must be provided''
      else Inr self)"

text \<open>
  \<open>User.model_validate\<close> (also what the framework runs on the request body of
  \<open>create_user\<close>): every field is validated and the errors of all fields are reported
  together; keys that are no field are ignored; the model validator runs only when no
  field failed.
\<close>

definition User_model_validate :: "pydantic \<Rightarrow> pyval \<Rightarrow> line_error list + User" where
  "User_model_validate lib v =
     (case v of
        PDict d \<Rightarrow>
          (let r1 = model_field d ''username'' None User_username;
               r2 = model_field d ''email'' None (User_email lib);
               r3 = model_field d ''full_name'' (Some []) User_full_name;
               r4 = model_field d ''is_active'' (Some True) (User_is_active lib);
               r5 = model_field d ''signup_ts'' (Some None) (User_signup_ts lib);
               r6 = model_field d ''roles'' (Some []) (User_roles lib)
           in case (r1, r2, r3, r4, r5, r6) of
                (Inr u, Inr e, Inr f, Inr a, Inr t, Inr r) \<Rightarrow>
                  one_error (after_validator validate_name_requirements
                    (Inr \<lparr>username = u, email = e, full_name = f, is_active = a,
                          signup_ts = t, roles = r\<rparr>))
              | _ \<Rightarrow>
                  Inl (errors_of r1 @ errors_of r2 @ errors_of r3 @ errors_of r4 @
                       errors_of r5 @ errors_of r6))
      | _ \<Rightarrow> Inl [model_type_error ''User''])"

text \<open>\<open>user.model_dump(by_alias=True)\<close>\<close>

definition User_model_dump :: "User \<Rightarrow> document" where
  "User_model_dump u =
     [(''username'', PStr (username u)),
      (''email'', PStr (email u)),
      (''full_name'', PStr (full_name u)),
      (''is_active'', PBool (is_active u)),
      (''signup_ts'', (case signup_ts u of None \<Rightarrow> PNone | Some t \<Rightarrow> PDatetime t)),
      (''roles'', PList (map PStr (roles u)))]"

text \<open>\<open>UserResponse\<close> declares four required fields and no configuration.\<close>

record UserResponse =
  resp_username :: string
  resp_email :: string
  resp_full_name :: string
  resp_roles :: "string list"

definition UserResponse_model_validate :: "pydantic \<Rightarrow> pyval \<Rightarrow> line_error list + UserResponse" where
  "UserResponse_model_validate lib v =
     (case v of
        PDict d \<Rightarrow>
          (let r1 = model_field d ''username'' None (\<lambda>x. one_error (str_validator False None None x));
               r2 = model_field d ''email'' None
                      (\<lambda>x. one_error (case str_validator False None None x of
                                        Inl e \<Rightarrow> Inl e
                                      | Inr s \<Rightarrow> validate_email lib s));
               r3 = model_field d ''full_name'' None (\<lambda>x. one_error (str_validator False None None x));
               r4 = model_field d ''roles'' None (list_str_validator False)
           in case (r1, r2, r3, r4) of
                (Inr u, Inr e, Inr f, Inr r) \<Rightarrow>
                  Inr \<lparr>resp_username = u, resp_email = e, resp_full_name = f, resp_roles = r\<rparr>
              | _ \<Rightarrow> Inl (errors_of r1 @ errors_of r2 @ errors_of r3 @ errors_of r4))
      | _ \<Rightarrow> Inl [model_type_error ''UserResponse''])"

text \<open>The serialised form of a \<open>UserResponse\<close>: its declared fields, in order.\<close>

definition UserResponse_model_dump :: "UserResponse \<Rightarrow> document" where
  "UserResponse_model_dump r =
     [(''username'', PStr (resp_username r)),
      (''email'', PStr (resp_email r)),
      (''full_name'', PStr (resp_full_name r)),
      (''roles'', PList (map PStr (resp_roles r)))]"

section \<open>Exceptions\<close>

text \<open>
  What a \<open>try\<close> block of \<open>app.py\<close> can see raised: the framework's \<open>HTTPException\<close> (status
  code, detail), the validation library's \<open>ValidationError\<close> (model name, lines), and any
  other exception, with its message.
\<close>

datatype exn =
    HTTPException nat string
  | ValidationError string "line_error list"
  | Error string

text \<open>\<open>str(err)\<close>; an \<open>HTTPException\<close> prints as \<open>"{status_code}: {detail}"\<close>.\<close>

definition str_exn :: "pydantic \<Rightarrow> exn \<Rightarrow> string" where
  "str_exn lib err =
     (case err of
        HTTPException status_code detail \<Rightarrow> str_nat status_code @ '': '' @ detail
      | ValidationError title errs \<Rightarrow> str_validation_error lib title errs
      | Error m \<Rightarrow> m)"

section \<open>The document store\<close>

text \<open>The filters \<open>app.py\<close> builds: none, \<open>{field: value}\<close> and \<open>{"$or": [...]}\<close>.\<close>

datatype query = QAll | QEq string pyval | QOr "query list"

text \<open>
  The collection \<open>db.get_collection("users")\<close> is an external collaborator: each operation
  may raise, returns a result and may change the store's state \<open>'s\<close>.
  \<open>insert_one\<close> returns \<open>result.inserted_id\<close>.
\<close>

record 's collection =
  insert_one :: "document \<Rightarrow> 's \<Rightarrow> (exn + pyval) \<times> 's"
  find_one :: "query \<Rightarrow> 's \<Rightarrow> (exn + document option) \<times> 's"
  find_many :: "query \<Rightarrow> 's \<Rightarrow> (exn + document list) \<times> 's"
  delete_one :: "query \<Rightarrow> 's \<Rightarrow> (exn + unit) \<times> 's"

section \<open>\<open>app.py\<close>: the handlers\<close>

definition HTTP_200_OK :: nat where "HTTP_200_OK = 200"
definition HTTP_201_CREATED :: nat where "HTTP_201_CREATED = 201"
definition HTTP_404_NOT_FOUND :: nat where "HTTP_404_NOT_FOUND = 404"
definition HTTP_422_UNPROCESSABLE_ENTITY :: nat where "HTTP_422_UNPROCESSABLE_ENTITY = 422"
definition HTTP_500_INTERNAL_SERVER_ERROR :: nat where "HTTP_500_INTERNAL_SERVER_ERROR = 500"

definition root :: pyval where
  "root = PDict [(''message'', PStr ''Welcome to the Fast API with MongoDB !'')]"

text \<open>The \<open>except\<close> clauses of \<open>create_user\<close>: \<open>ValidationError\<close>, then \<open>Exception\<close>.\<close>

definition create_user_except :: "pydantic \<Rightarrow> exn \<Rightarrow> exn" where
  "create_user_except lib err =
     (case err of
        ValidationError _ _ \<Rightarrow> HTTPException HTTP_422_UNPROCESSABLE_ENTITY (str_exn lib err)
      | _ \<Rightarrow> HTTPException HTTP_500_INTERNAL_SERVER_ERROR (str_exn lib err))"

definition create_user :: "pydantic \<Rightarrow> 's collection \<Rightarrow> User \<Rightarrow> 's \<Rightarrow> (exn + User) \<times> 's" where
  "create_user lib users user s =
     (let user_dict = User_model_dump user;
          (result, s1) = insert_one users user_dict s
      in case result of
           Inl err \<Rightarrow> (Inl (create_user_except lib err), s1)
         | Inr inserted_id \<Rightarrow>
             (let (created_user, s2) = find_one users (QEq ''_id'' inserted_id) s1
              in case created_user of
                   Inl err \<Rightarrow> (Inl (create_user_except lib err), s2)
                 | Inr None \<Rightarrow>
                     (Inl (create_user_except lib
                        (HTTPException HTTP_500_INTERNAL_SERVER_ERROR ''Failed to create user'')), s2)
                 | Inr (Some doc) \<Rightarrow>
                     (case User_model_validate lib (PDict doc) of
                        Inl errs \<Rightarrow> (Inl (create_user_except lib (ValidationError ''User'' errs)), s2)
                      | Inr u \<Rightarrow> (Inr u, s2))))"

text \<open>\<open>[UserResponse.model_validate(user) for user in users]\<close>: the first failure ends it.\<close>

fun validate_each :: "pydantic \<Rightarrow> document list \<Rightarrow> exn + UserResponse list" where
  "validate_each lib [] = Inr []"
| "validate_each lib (d # ds) =
     (case UserResponse_model_validate lib (PDict d) of
        Inl errs \<Rightarrow> Inl (ValidationError ''UserResponse'' errs)
      | Inr r \<Rightarrow> (case validate_each lib ds of Inl err \<Rightarrow> Inl err | Inr rs \<Rightarrow> Inr (r # rs)))"

definition get_users :: "pydantic \<Rightarrow> 's collection \<Rightarrow> 's \<Rightarrow> (exn + UserResponse list) \<times> 's" where
  "get_users lib users_coll s =
     (let (users, s1) = find_many users_coll QAll s
      in case users of
           Inl err \<Rightarrow> (Inl (HTTPException HTTP_500_INTERNAL_SERVER_ERROR (str_exn lib err)), s1)
         | Inr docs \<Rightarrow>
             (case validate_each lib docs of
                Inl err \<Rightarrow> (Inl (HTTPException HTTP_500_INTERNAL_SERVER_ERROR (str_exn lib err)), s1)
              | Inr user_list \<Rightarrow> (Inr user_list, s1)))"

text \<open>The \<open>except\<close> clauses of \<open>get_user\<close> and \<open>delete_user\<close>: \<open>HTTPException\<close> is raised again as it
  is, any other exception becomes a 500.\<close>

definition reraise_http_except :: "pydantic \<Rightarrow> exn \<Rightarrow> exn" where
  "reraise_http_except lib err =
     (case err of
        HTTPException status_code detail \<Rightarrow> HTTPException status_code detail
      | _ \<Rightarrow> HTTPException HTTP_500_INTERNAL_SERVER_ERROR (str_exn lib err))"

definition get_user :: "pydantic \<Rightarrow> 's collection \<Rightarrow> string \<Rightarrow> 's \<Rightarrow> (exn + UserResponse list) \<times> 's" where
  "get_user lib users_coll search s =
     (let (users, s1) =
            find_many users_coll (QOr [QEq ''email'' (PStr search), QEq ''username'' (PStr search)]) s
      in case users of
           Inl err \<Rightarrow> (Inl (reraise_http_except lib err), s1)
         | Inr docs \<Rightarrow>
             (case validate_each lib docs of
                Inl err \<Rightarrow> (Inl (reraise_http_except lib err), s1)
              | Inr user_list \<Rightarrow>
                  if user_list = []
                  then (Inl (reraise_http_except lib
                          (HTTPException HTTP_404_NOT_FOUND ''No user found'')), s1)
                  else (Inr user_list, s1)))"

definition delete_user :: "pydantic \<Rightarrow> 's collection \<Rightarrow> string \<Rightarrow> 's \<Rightarrow> (exn + pyval) \<times> 's" where
  "delete_user lib users_coll email_arg s =
     (let (users, s1) = find_many users_coll (QEq ''email'' (PStr email_arg)) s
      in case users of
           Inl err \<Rightarrow> (Inl (reraise_http_except lib err), s1)
         | Inr user_list \<Rightarrow>
             if user_list = []
             then (Inl (reraise_http_except lib
                     (HTTPException HTTP_404_NOT_FOUND ''No user found'')), s1)
             else (let (deleted, s2) = delete_one users_coll (QEq ''email'' (PStr email_arg)) s1
                   in case deleted of
                        Inl err \<Rightarrow> (Inl (reraise_http_except lib err), s2)
                      | Inr _ \<Rightarrow>
                          (Inr (PDict [(''message'',
                                  PStr (''User with email '' @ email_arg @ '' deleted successfully''))]),
                           s2)))"

section \<open>\<open>routers/items.py\<close>\<close>

definition get_items :: pyval where
  "get_items = PList [PDict [(''username'', PStr ''Alice'')], PDict [(''username'', PStr ''Bob'')]]"

section \<open>\<open>app.py\<close>: the application\<close>

datatype http_method = GET | HEAD | POST | PUT | PATCH | DELETE | OPTIONS

text \<open>A path of the route table: a fixed path, or a prefix followed by one path parameter
  (a non-empty segment without \<open>/\<close>).\<close>

datatype path_pattern = Exact string | Param string

datatype endpoint = Root | CreateUser | GetUsers | GetUser | DeleteUser | GetItems

type_synonym route = "http_method \<times> path_pattern \<times> endpoint"

text \<open>The routes the decorators of \<open>app.py\<close> register on \<open>app\<close>, in order.\<close>

definition app_routes :: "route list" where
  "app_routes =
     [(GET, Exact ''/'', Root),
      (POST, Exact ''/users/'', CreateUser),
      (GET, Exact ''/users/'', GetUsers),
      (GET, Param ''/users/'', GetUser),
      (DELETE, Param ''/users/'', DeleteUser)]"

text \<open>The route \<open>routers/items.py\<close> registers on its own \<open>router\<close>; \<open>app.py\<close> never includes
  that router.\<close>

definition items_router_routes :: "route list" where
  "items_router_routes = [(GET, Exact ''/'', GetItems)]"

definition path_params :: "path_pattern \<Rightarrow> string \<Rightarrow> string option" where
  "path_params pat path =
     (case pat of
        Exact p \<Rightarrow> (if path = p then Some [] else None)
      | Param p \<Rightarrow>
          (let v = drop (length p) path
           in if take (length p) path = p \<and> v \<noteq> [] \<and> CHR ''/'' \<notin> set v then Some v else None))"

text \<open>Routing: the first route whose path and method match; else, when a path matched,
  405; else a redirect when the path with its trailing slash toggled matches a route;
  else 404.\<close>

datatype routed = Call endpoint string | MethodNotAllowed | Redirect string | NotFound

fun full_match :: "route list \<Rightarrow> http_method \<Rightarrow> string \<Rightarrow> (endpoint \<times> string) option" where
  "full_match [] m path = None"
| "full_match ((m', pat, ep) # rs) m path =
     (case path_params pat path of
        Some v \<Rightarrow> (if m = m' then Some (ep, v) else full_match rs m path)
      | None \<Rightarrow> full_match rs m path)"

definition path_matches :: "route list \<Rightarrow> string \<Rightarrow> bool" where
  "path_matches rs path = list_ex (\<lambda>(m, pat, ep). path_params pat path \<noteq> None) rs"

definition toggle_slash :: "string \<Rightarrow> string" where
  "toggle_slash path = (if path \<noteq> [] \<and> last path = CHR ''/'' then butlast path else path @ ''/'')"

definition route_request :: "route list \<Rightarrow> http_method \<Rightarrow> string \<Rightarrow> routed" where
  "route_request rs m path =
     (case full_match rs m path of
        Some (ep, v) \<Rightarrow> Call ep v
      | None \<Rightarrow>
          if path_matches rs path then MethodNotAllowed
          else if path \<noteq> ''/'' \<and> path_matches rs (toggle_slash path)
          then Redirect (toggle_slash path)
          else NotFound)"

record request =
  req_method :: http_method
  req_path :: string
  req_json :: "pyval option"

record response =
  status_code :: nat
  content :: pyval

text \<open>An \<open>HTTPException\<close> leaving a handler is answered with its status code and
  \<open>{"detail": detail}\<close>.\<close>

definition error_response :: "exn \<Rightarrow> response" where
  "error_response err =
     (case err of
        HTTPException code detail \<Rightarrow>
          \<lparr>status_code = code, content = PDict [(''detail'', PStr detail)]\<rparr>
      | _ \<Rightarrow>
          \<lparr>status_code = HTTP_500_INTERNAL_SERVER_ERROR, content = PStr ''Internal Server Error''\<rparr>)"

definition loc_item_json :: "loc_item \<Rightarrow> pyval" where
  "loc_item_json k = (case k of Key name \<Rightarrow> PStr name | Index i \<Rightarrow> PInt (int i))"

text \<open>A request body that fails validation is answered with 422 and the lines of the error
  (type, location under \<open>body\<close>, message) before the handler is called.\<close>

definition request_validation_response :: "line_error list \<Rightarrow> response" where
  "request_validation_response errs =
     \<lparr>status_code = HTTP_422_UNPROCESSABLE_ENTITY,
      content = PDict [(''detail'',
        PList (map (\<lambda>e. PDict [(''type'', PStr (etype e)),
                                (''loc'', PList (PStr ''body'' # map loc_item_json (loc e))),
                                (''msg'', PStr (msg e))]) errs))]\<rparr>"

definition app :: "pydantic \<Rightarrow> 's collection \<Rightarrow> request \<Rightarrow> 's \<Rightarrow> response \<times> 's" where
  "app lib users req s =
     (case route_request app_routes (req_method req) (req_path req) of
        Call Root _ \<Rightarrow> (\<lparr>status_code = HTTP_200_OK, content = root\<rparr>, s)
      | Call CreateUser _ \<Rightarrow>
          (case req_json req of
             None \<Rightarrow>
               (request_validation_response [LineError [] ''missing'' ''Field required''], s)
           | Some body \<Rightarrow>
               (case User_model_validate lib body of
                  Inl errs \<Rightarrow> (request_validation_response errs, s)
                | Inr user \<Rightarrow>
                    (case create_user lib users user s of
                       (Inl err, s') \<Rightarrow> (error_response err, s')
                     | (Inr u, s') \<Rightarrow>
                         (\<lparr>status_code = HTTP_201_CREATED, content = PDict (User_model_dump u)\<rparr>, s'))))
      | Call GetUsers _ \<Rightarrow>
          (case get_users lib users s of
             (Inl err, s') \<Rightarrow> (error_response err, s')
           | (Inr user_list, s') \<Rightarrow>
               (\<lparr>status_code = HTTP_200_OK,
                 content = PList (map (\<lambda>r. PDict (UserResponse_model_dump r)) user_list)\<rparr>, s'))
      | Call GetUser search \<Rightarrow>
          (case get_user lib users search s of
             (Inl err, s') \<Rightarrow> (error_response err, s')
           | (Inr user_list, s') \<Rightarrow>
               (\<lparr>status_code = HTTP_200_OK,
                 content = PList (map (\<lambda>r. PDict (UserResponse_model_dump r)) user_list)\<rparr>, s'))
      | Call DeleteUser email_arg \<Rightarrow>
          (case delete_user lib users email_arg s of
             (Inl err, s') \<Rightarrow> (error_response err, s')
           | (Inr body, s') \<Rightarrow> (\<lparr>status_code = HTTP_200_OK, content = body\<rparr>, s'))
      | Call GetItems _ \<Rightarrow> (\<lparr>status_code = HTTP_200_OK, content = get_items\<rparr>, s)
      | MethodNotAllowed \<Rightarrow>
          (\<lparr>status_code = 405, content = PDict [(''detail'', PStr ''Method Not Allowed'')]\<rparr>, s)
      | Redirect path \<Rightarrow> (\<lparr>status_code = 307, content = PNone\<rparr>, s)
      | NotFound \<Rightarrow> (\<lparr>status_code = 404, content = PDict [(''detail'', PStr ''Not Found'')]\<rparr>, s))"

section \<open>A document store in memory\<close>

text \<open>
  A reference collection with the behaviour the handlers rely on: documents are kept in
  insertion order; \<open>insert_one\<close> gives a document without \<open>_id\<close> a fresh identifier and
  refuses a duplicate \<open>_id\<close>; an equality filter matches a field equal to the value, an
  array field containing it, and, for \<open>null\<close>, a missing field.
\<close>

record mem =
  docs :: "document list"
  next_id :: nat

fun matches :: "query \<Rightarrow> document \<Rightarrow> bool" where
  "matches QAll d = True"
| "matches (QEq k v) d =
     (case map_of d k of
        None \<Rightarrow> v = PNone
      | Some x \<Rightarrow> x = v \<or> (case x of PList xs \<Rightarrow> v \<in> set xs | _ \<Rightarrow> False))"
| "matches (QOr qs) d = list_ex (\<lambda>q. matches q d) qs"

fun remove_first :: "('a \<Rightarrow> bool) \<Rightarrow> 'a list \<Rightarrow> 'a list" where
  "remove_first P [] = []"
| "remove_first P (x # xs) = (if P x then xs else x # remove_first P xs)"

definition mem_insert_one :: "document \<Rightarrow> mem \<Rightarrow> (exn + pyval) \<times> mem" where
  "mem_insert_one doc s =
     (case map_of doc ''_id'' of
        None \<Rightarrow>
          (let oid = PObjectId (next_id s)
           in (Inr oid, \<lparr>docs = docs s @ [(''_id'', oid) # doc], next_id = Suc (next_id s)\<rparr>))
      | Some oid \<Rightarrow>
          if list_ex (\<lambda>d. map_of d ''_id'' = Some oid) (docs s)
          then (Inl (Error ''E11000 duplicate key error''), s)
          else (Inr oid, s\<lparr>docs := docs s @ [doc]\<rparr>))"

definition mem_find_one :: "query \<Rightarrow> mem \<Rightarrow> (exn + document option) \<times> mem" where
  "mem_find_one q s = (Inr (List.find (matches q) (docs s)), s)"

definition mem_find_many :: "query \<Rightarrow> mem \<Rightarrow> (exn + document list) \<times> mem" where
  "mem_find_many q s = (Inr (filter (matches q) (docs s)), s)"

definition mem_delete_one :: "query \<Rightarrow> mem \<Rightarrow> (exn + unit) \<times> mem" where
  "mem_delete_one q s = (Inr (), s\<lparr>docs := remove_first (matches q) (docs s)\<rparr>)"

definition mem_collection :: "mem collection" where
  "mem_collection =
     \<lparr>insert_one = mem_insert_one, find_one = mem_find_one,
      find_many = mem_find_many, delete_one = mem_delete_one\<rparr>"

section \<open>Stand-ins used to run the model on concrete inputs\<close>

text \<open>A small e-mail check (one \<open>@\<close>, not at either end, no whitespace) that returns the
  address as it is, validators for \<open>bool\<close> and \<open>datetime\<close> that accept values of that type,
  and sets iterated in the order of first occurrence.\<close>

definition simple_email :: "string \<Rightarrow> bool" where
  "simple_email s =
     (length (filter (\<lambda>c. c = CHR ''@'') s) = 1 \<and> hd s \<noteq> CHR ''@'' \<and> last s \<noteq> CHR ''@'' \<and>
      list_all (\<lambda>c. \<not> is_whitespace c) s)"

definition simple_pydantic :: pydantic where
  "simple_pydantic =
     \<lparr>validate_email =
        (\<lambda>s. if simple_email s then Inr s
             else Inl (''value_error'', ''value is not a valid email address'')),
      validate_bool =
        (\<lambda>v. case v of PBool b \<Rightarrow> Inr b
                      | _ \<Rightarrow> Inl (''bool_type'', ''Input should be a valid boolean'')),
      validate_datetime =
        (\<lambda>v. case v of PDatetime t \<Rightarrow> Inr t
                      | _ \<Rightarrow> Inl (''datetime_type'', ''Input should be a valid datetime'')),
      str_validation_error =
        (\<lambda>title errs. str_nat (length errs) @ '' validation error for '' @ title),
      set_iteration = remdups\<rparr>"

text \<open>A collection that records every call made to it and answers like an empty store.\<close>

datatype store_call = InsertOne document | FindOne query | Find query | DeleteOne query

definition recording_collection :: "store_call list collection" where
  "recording_collection =
     \<lparr>insert_one = (\<lambda>doc log. (Inr (PObjectId 0), log @ [InsertOne doc])),
      find_one = (\<lambda>q log. (Inr None, log @ [FindOne q])),
      find_many = (\<lambda>q log. (Inr [], log @ [Find q])),
      delete_one = (\<lambda>q log. (Inr (), log @ [DeleteOne q]))\<rparr>"

text \<open>A store holding one user, as \<open>create_user\<close> leaves it.\<close>

definition alice_doc :: document where
  "alice_doc =
     [(''_id'', PObjectId 0),
      (''username'', PStr ''alice01''),
      (''email'', PStr ''alice@example.com''),
      (''full_name'', PStr []),
      (''is_active'', PBool True),
      (''signup_ts'', PNone),
      (''roles'', PList [PStr ''user''])]"

definition one_user_store :: mem where
  "one_user_store = \<lparr>docs = [alice_doc], next_id = 1\<rparr>"

text \<open>A collection every operation of which raises \<open>Exception("Database error")\<close>.\<close>

definition failing_collection :: "unit collection" where
  "failing_collection =
     \<lparr>insert_one = (\<lambda>doc s. (Inl (Error ''Database error''), s)),
      find_one = (\<lambda>q s. (Inl (Error ''Database error''), s)),
      find_many = (\<lambda>q s. (Inl (Error ''Database error''), s)),
      delete_one = (\<lambda>q s. (Inl (Error ''Database error''), s))\<rparr>"

section \<open>Conditions of the round trip\<close>

text \<open>
  What the round trip needs of the validation library: a \<open>bool\<close> and a \<open>datetime\<close> are
  accepted as they are, and an address the e-mail validator returned is returned again
  unchanged and has no surrounding whitespace.
\<close>

definition stable_library :: "pydantic \<Rightarrow> bool" where
  "stable_library lib =
     ((\<forall>b. validate_bool lib (PBool b) = Inr b) \<and>
      (\<forall>t. validate_datetime lib (PDatetime t) = Inr t) \<and>
      (\<forall>s e. validate_email lib s = Inr e \<longrightarrow>
             validate_email lib e = Inr e \<and> strip_whitespace e = e))"

text \<open>The identifiers of the in-memory store are the ones it handed out.\<close>

definition mem_wf :: "mem \<Rightarrow> bool" where
  "mem_wf s =
     list_all (\<lambda>d. case map_of d ''_id'' of Some (PObjectId n) \<Rightarrow> n < next_id s | _ \<Rightarrow> False)
       (docs s)"

text \<open>A stored document that \<open>UserResponse\<close> accepts.\<close>

definition projectable :: "pydantic \<Rightarrow> document \<Rightarrow> bool" where
  "projectable lib d = (case UserResponse_model_validate lib (PDict d) of Inl _ \<Rightarrow> False | Inr _ \<Rightarrow> True)"

definition store_inv :: "pydantic \<Rightarrow> mem \<Rightarrow> bool" where
  "store_inv lib s = (mem_wf s \<and> list_all (projectable lib) (docs s))"

text \<open>What validation guarantees of a \<open>User\<close>.\<close>

definition valid_user :: "pydantic \<Rightarrow> User \<Rightarrow> bool" where
  "valid_user lib u =
     (strip_whitespace (username u) = username u \<and>
      USERNAME_MIN_LENGTH \<le> length (username u) \<and> length (username u) \<le> USERNAME_MAX_LENGTH \<and>
      list_all is_username_char (username u) \<and>
      validate_email lib (email u) = Inr (email u) \<and> strip_whitespace (email u) = email u \<and>
      strip_whitespace (full_name u) = full_name u \<and> length (full_name u) \<le> FULLNAME_MAX_LENGTH \<and>
      list_all (\<lambda>r. strip_whitespace r = r \<and> r \<in> set ALLOWED_ROLES) (roles u) \<and>
      \<not> (full_name u = [] \<and> username u = ANONYMOUS_USERNAME))"

text \<open>The view of a user that list and search return.\<close>

definition response_of :: "User \<Rightarrow> UserResponse" where
  "response_of u =
     \<lparr>resp_username = username u, resp_email = email u,
      resp_full_name = full_name u, resp_roles = roles u\<rparr>"

section \<open>Trimming and the username pattern\<close>

lemma is_whitespace_newline: "is_whitespace (CHR 0x0A)"
  by (simp add: is_whitespace_def)

lemma strip_last: "strip_whitespace s \<noteq> [] \<Longrightarrow> \<not> is_whitespace (last (strip_whitespace s))"
  unfolding strip_whitespace_def
  by (metis hd_dropWhile last_rev rev_is_Nil_conv)

text \<open>A trimmed string cannot end in a newline, so on it the pattern is a full match.\<close>

lemma re_match_stripped:
  "re_match_USERNAME_PATTERN (strip_whitespace s) =
     (strip_whitespace s \<noteq> [] \<and> list_all is_username_char (strip_whitespace s))"
  using strip_last [of s] is_whitespace_newline
  by (auto simp: re_match_USERNAME_PATTERN_def Let_def)

lemma str_nat_3: "str_nat 3 = ''3''"
  by code_simp

lemma str_nat_50: "str_nat 50 = ''50''"
  by code_simp

lemma str_nat_100: "str_nat 100 = ''100''"
  by code_simp

lemma User_username_PStr:
  "User_username (PStr raw) =
     (let t = strip_whitespace raw in
      if length t < 3
      then Inl [LineError [] ''string_too_short'' ''String should have at least 3 characters'']
      else if 50 < length t
      then Inl [LineError [] ''string_too_long'' ''String should have at most 50 characters'']
      else if \<not> (t \<noteq> [] \<and> list_all is_username_char t)
      then Inl [LineError [] ''value_error''
                  ''Value error, Username must be alphanumeric with underscores only'']
      else Inr t)"
  by (simp add: User_username_def str_validator_def Let_def USERNAME_MIN_LENGTH_def
        USERNAME_MAX_LENGTH_def one_error_def after_validator_def validate_username_format_def
        re_match_stripped value_error_def str_nat_3 str_nat_50)

lemma model_field_username:
  "map_of d ''username'' = Some (PStr raw) \<Longrightarrow>
   model_field d ''username'' None User_username =
     (case User_username (PStr raw) of
        Inl errs \<Rightarrow> Inl (map (at_loc (Key ''username'')) errs)
      | Inr x \<Rightarrow> Inr x)"
  by (simp add: model_field_def)

lemma User_model_validate_username_Inl:
  "model_field d ''username'' None User_username = Inl es \<Longrightarrow>
   \<exists>errs. User_model_validate lib (PDict d) = Inl (es @ errs)"
  by (simp add: User_model_validate_def Let_def errors_of_def)

section \<open>Requests that fail validation\<close>

lemma app_create_route: "route_request app_routes POST ''/users/'' = Call CreateUser []"
  by (simp add: route_request_def app_routes_def path_params_def)

lemma app_create_invalid:
  "User_model_validate lib body = Inl errs \<Longrightarrow>
   app lib users \<lparr>req_method = POST, req_path = ''/users/'', req_json = Some body\<rparr> s =
     (request_validation_response errs, s)"
  by (simp add: app_def app_create_route)

section \<open>The username rule\<close>

text \<open>
  C7. Let \<open>t\<close> be the username of the request body with surrounding whitespace trimmed.
  When \<open>t\<close> consists of one or more characters of \<open>[A-Za-z0-9_]\<close> and has between 3 and 50
  characters, the username field validates, to \<open>t\<close>. When \<open>t\<close> does not match the pattern or
  its length is outside 3..50, validation of the body fails with an error located at
  \<open>username\<close>, and the create request is answered with 422, the store untouched.
\<close>

theorem username_rule:
  assumes "map_of d ''username'' = Some (PStr raw)"
  shows "(strip_whitespace raw \<noteq> [] \<and> list_all is_username_char (strip_whitespace raw) \<and>
          3 \<le> length (strip_whitespace raw) \<and> length (strip_whitespace raw) \<le> 50
          \<longrightarrow> model_field d ''username'' None User_username = Inr (strip_whitespace raw))
       \<and> (\<not> (strip_whitespace raw \<noteq> [] \<and> list_all is_username_char (strip_whitespace raw)) \<or>
          length (strip_whitespace raw) < 3 \<or> 50 < length (strip_whitespace raw)
          \<longrightarrow> (\<exists>errs. User_model_validate lib (PDict d) = Inl errs \<and>
                 (\<exists>e\<in>set errs. loc e = [Key ''username'']) \<and>
                 app lib users \<lparr>req_method = POST, req_path = ''/users/'', req_json = Some (PDict d)\<rparr> s =
                   (request_validation_response errs, s) \<and>
                 status_code (request_validation_response errs) = 422))"
proof (intro conjI impI)
  assume "strip_whitespace raw \<noteq> [] \<and> list_all is_username_char (strip_whitespace raw) \<and>
          3 \<le> length (strip_whitespace raw) \<and> length (strip_whitespace raw) \<le> 50"
  then show "model_field d ''username'' None User_username = Inr (strip_whitespace raw)"
    by (simp add: model_field_username [OF assms] User_username_PStr Let_def)
next
  assume bad: "\<not> (strip_whitespace raw \<noteq> [] \<and> list_all is_username_char (strip_whitespace raw)) \<or>
          length (strip_whitespace raw) < 3 \<or> 50 < length (strip_whitespace raw)"
  then have "\<exists>e. User_username (PStr raw) = Inl [e] \<and> loc e = []"
    by (auto simp: User_username_PStr Let_def)
  then obtain e where e: "User_username (PStr raw) = Inl [e]" "loc e = []"
    by blast
  then have "model_field d ''username'' None User_username = Inl [at_loc (Key ''username'') e]"
    by (simp add: model_field_username [OF assms])
  from User_model_validate_username_Inl [OF this, of lib]
  obtain errs where errs: "User_model_validate lib (PDict d) = Inl ([at_loc (Key ''username'') e] @ errs)"
    by blast
  have "loc (at_loc (Key ''username'') e) = [Key ''username'']"
    by (simp add: at_loc_def e)
  with errs app_create_invalid [OF errs, of users s]
  show "\<exists>errs. User_model_validate lib (PDict d) = Inl errs \<and>
                 (\<exists>e\<in>set errs. loc e = [Key ''username'']) \<and>
                 app lib users \<lparr>req_method = POST, req_path = ''/users/'', req_json = Some (PDict d)\<rparr> s =
                   (request_validation_response errs, s) \<and>
                 status_code (request_validation_response errs) = 422"
    by (auto simp: request_validation_response_def HTTP_422_UNPROCESSABLE_ENTITY_def)
qed

theorem username_rule_witness:
  "model_field [(''username'', PStr '' alice01 ''), (''email'', PStr ''alice@example.com'')]
      ''username'' None User_username = Inr ''alice01'' \<and>
   (\<exists>errs. User_model_validate simple_pydantic
        (PDict [(''username'', PStr ''bad name''), (''email'', PStr ''alice@example.com'')]) = Inl errs \<and>
      app simple_pydantic mem_collection
        \<lparr>req_method = POST, req_path = ''/users/'',
         req_json = Some (PDict [(''username'', PStr ''bad name''), (''email'', PStr ''alice@example.com'')])\<rparr>
        \<lparr>docs = [], next_id = 0\<rparr> = (request_validation_response errs, \<lparr>docs = [], next_id = 0\<rparr>) \<and>
      status_code (request_validation_response errs) = 422)"
proof -
  have t1: "strip_whitespace '' alice01 '' = ''alice01''"
    by (simp add: strip_whitespace_def is_whitespace_def)
  have t2: "strip_whitespace ''bad name'' = ''bad name''"
    by (simp add: strip_whitespace_def is_whitespace_def)
  show ?thesis
    using username_rule [of "[(''username'', PStr '' alice01 ''), (''email'', PStr ''alice@example.com'')]"
            "'' alice01 ''" simple_pydantic mem_collection "\<lparr>docs = [], next_id = 0\<rparr>"]
          username_rule [of "[(''username'', PStr ''bad name''), (''email'', PStr ''alice@example.com'')]"
            "''bad name''" simple_pydantic mem_collection "\<lparr>docs = [], next_id = 0\<rparr>"]
    by (simp add: t1 t2 is_username_char_def) blast
qed

section \<open>Create requests with an invalid body\<close>

lemma status_422: "status_code (request_validation_response errs) = 422"
  by (simp add: request_validation_response_def HTTP_422_UNPROCESSABLE_ENTITY_def)

text \<open>One body for each way validation fails: a missing required field, a bad e-mail
  address, a bad username, an invalid role, the anonymous rule.\<close>

lemma invalid_missing_username:
  "User_model_validate simple_pydantic (PDict [(''email'', PStr ''alice@example.com'')]) =
     Inl [LineError [Key ''username''] ''missing'' ''Field required'']"
  by code_simp

lemma invalid_email:
  "User_model_validate simple_pydantic
     (PDict [(''username'', PStr ''testuser''), (''email'', PStr ''invalid_email''),
             (''full_name'', PStr ''Test User'')]) =
     Inl [LineError [Key ''email''] ''value_error'' ''value is not a valid email address'']"
  by code_simp

lemma invalid_username:
  "User_model_validate simple_pydantic
     (PDict [(''username'', PStr ''a''), (''email'', PStr ''alice@example.com'')]) =
     Inl [LineError [Key ''username''] ''string_too_short''
            ''String should have at least 3 characters'']"
  by code_simp

lemma invalid_roles:
  "isl (User_model_validate simple_pydantic
     (PDict [(''username'', PStr ''alice01''), (''email'', PStr ''alice@example.com''),
             (''roles'', PList [PStr ''root''])]))"
  by code_simp

lemma invalid_anonymous:
  "User_model_validate simple_pydantic
     (PDict [(''username'', PStr ''anonymous''), (''email'', PStr ''alice@example.com'')]) =
     Inl [LineError [] ''value_error''
            ''Value error, Either full_name or a non-anonymous username must be provided'']"
  by code_simp

text \<open>
  C10. A create request whose body fails \<open>User\<close> validation is answered with 422 and the
  lines of the validation error, whatever the collection is, and the state of the store is
  the one before the request: no operation of the collection is called.
\<close>

theorem invalid_create_rejected:
  assumes "User_model_validate lib body = Inl errs"
  shows "app lib users \<lparr>req_method = POST, req_path = ''/users/'', req_json = Some body\<rparr> s =
           (request_validation_response errs, s) \<and>
         status_code (request_validation_response errs) = 422"
  using app_create_invalid [OF assms] by (simp add: status_422)

theorem invalid_create_rejected_witness:
  "app simple_pydantic recording_collection
     \<lparr>req_method = POST, req_path = ''/users/'',
      req_json = Some (PDict [(''email'', PStr ''alice@example.com'')])\<rparr> [] =
     (request_validation_response [LineError [Key ''username''] ''missing'' ''Field required''], []) \<and>
   app simple_pydantic recording_collection
     \<lparr>req_method = POST, req_path = ''/users/'',
      req_json = Some (PDict [(''username'', PStr ''testuser''), (''email'', PStr ''invalid_email''),
                              (''full_name'', PStr ''Test User'')])\<rparr> [] =
     (request_validation_response
        [LineError [Key ''email''] ''value_error'' ''value is not a valid email address''], []) \<and>
   app simple_pydantic recording_collection
     \<lparr>req_method = POST, req_path = ''/users/'',
      req_json = Some (PDict [(''username'', PStr ''anonymous''),
                              (''email'', PStr ''alice@example.com'')])\<rparr> [] =
     (request_validation_response
        [LineError [] ''value_error''
           ''Value error, Either full_name or a non-anonymous username must be provided''], [])"
  using invalid_create_rejected [OF invalid_missing_username, of recording_collection "[]"]
        invalid_create_rejected [OF invalid_email, of recording_collection "[]"]
        invalid_create_rejected [OF invalid_anonymous, of recording_collection "[]"]
  by simp

section \<open>Not found\<close>

lemma app_get_users_route: "route_request app_routes GET ''/users/'' = Call GetUsers []"
  by (simp add: route_request_def app_routes_def path_params_def)

lemma app_get_user_route:
  "search \<noteq> [] \<Longrightarrow> CHR ''/'' \<notin> set search \<Longrightarrow>
   route_request app_routes GET (''/users/'' @ search) = Call GetUser search"
  by (simp add: route_request_def app_routes_def path_params_def)

lemma app_delete_user_route:
  "e \<noteq> [] \<Longrightarrow> CHR ''/'' \<notin> set e \<Longrightarrow>
   route_request app_routes DELETE (''/users/'' @ e) = Call DeleteUser e"
  by (simp add: route_request_def app_routes_def path_params_def)

lemma app_get_user:
  assumes "search \<noteq> []" and "CHR ''/'' \<notin> set search"
  shows "app lib users \<lparr>req_method = GET, req_path = ''/users/'' @ search, req_json = b\<rparr> s =
     (case get_user lib users search s of
        (Inl err, s') \<Rightarrow> (error_response err, s')
      | (Inr user_list, s') \<Rightarrow>
          (\<lparr>status_code = HTTP_200_OK,
            content = PList (map (\<lambda>r. PDict (UserResponse_model_dump r)) user_list)\<rparr>, s'))"
  by (simp only: app_def request.simps app_get_user_route [OF assms] routed.case endpoint.case)

lemma app_delete_user:
  assumes "e \<noteq> []" and "CHR ''/'' \<notin> set e"
  shows "app lib users \<lparr>req_method = DELETE, req_path = ''/users/'' @ e, req_json = b\<rparr> s =
     (case delete_user lib users e s of
        (Inl err, s') \<Rightarrow> (error_response err, s')
      | (Inr body, s') \<Rightarrow> (\<lparr>status_code = HTTP_200_OK, content = body\<rparr>, s'))"
  by (simp only: app_def request.simps app_delete_user_route [OF assms] routed.case endpoint.case)

lemma get_user_none:
  "find_many users (QOr [QEq ''email'' (PStr search), QEq ''username'' (PStr search)]) s = (Inr [], s1) \<Longrightarrow>
   get_user lib users search s = (Inl (HTTPException 404 ''No user found''), s1)"
  by (simp add: get_user_def reraise_http_except_def HTTP_404_NOT_FOUND_def)

lemma delete_user_none:
  "find_many users (QEq ''email'' (PStr e)) s = (Inr [], s1) \<Longrightarrow>
   delete_user lib users e s = (Inl (HTTPException 404 ''No user found''), s1)"
  by (simp add: delete_user_def reraise_http_except_def HTTP_404_NOT_FOUND_def)

lemma error_response_404:
  "error_response (HTTPException 404 ''No user found'') =
     \<lparr>status_code = 404, content = PDict [(''detail'', PStr ''No user found'')]\<rparr>"
  by (simp add: error_response_def)

text \<open>
  C3. When the search of \<open>get_user\<close> (e-mail or username equal to the string) or the search
  of \<open>delete_user\<close> (e-mail equal to the string) returns no document, the handler raises
  \<open>HTTPException(404, "No user found")\<close> and its \<open>except HTTPException\<close> clause raises it again
  as it is: the request is answered with 404 and \<open>{"detail": "No user found"}\<close>, not with
  500, and \<open>delete_one\<close> is not called.
\<close>

theorem not_found_passes_through:
  "(find_many users (QOr [QEq ''email'' (PStr search), QEq ''username'' (PStr search)]) s = (Inr [], s1)
      \<longrightarrow> get_user lib users search s = (Inl (HTTPException 404 ''No user found''), s1) \<and>
          (search \<noteq> [] \<and> CHR ''/'' \<notin> set search \<longrightarrow>
             app lib users \<lparr>req_method = GET, req_path = ''/users/'' @ search, req_json = b\<rparr> s =
               (\<lparr>status_code = 404, content = PDict [(''detail'', PStr ''No user found'')]\<rparr>, s1)))
   \<and> (find_many users (QEq ''email'' (PStr search)) s = (Inr [], s1)
      \<longrightarrow> delete_user lib users search s = (Inl (HTTPException 404 ''No user found''), s1) \<and>
          (search \<noteq> [] \<and> CHR ''/'' \<notin> set search \<longrightarrow>
             app lib users \<lparr>req_method = DELETE, req_path = ''/users/'' @ search, req_json = b\<rparr> s =
               (\<lparr>status_code = 404, content = PDict [(''detail'', PStr ''No user found'')]\<rparr>, s1)))"
  by (simp add: get_user_none delete_user_none app_get_user app_delete_user error_response_404
        del: append.simps)

lemma find_none_by_search:
  "find_many mem_collection
     (QOr [QEq ''email'' (PStr ''doesnotexist''), QEq ''username'' (PStr ''doesnotexist'')])
     one_user_store = (Inr [], one_user_store)"
  by (simp add: mem_collection_def mem_find_many_def one_user_store_def alice_doc_def)

lemma find_none_by_email:
  "find_many mem_collection (QEq ''email'' (PStr ''nonexistent@example.com''))
     one_user_store = (Inr [], one_user_store)"
  by (simp add: mem_collection_def mem_find_many_def one_user_store_def alice_doc_def)

theorem not_found_passes_through_witness:
  "get_user simple_pydantic mem_collection ''doesnotexist'' one_user_store =
     (Inl (HTTPException 404 ''No user found''), one_user_store) \<and>
   app simple_pydantic mem_collection
     \<lparr>req_method = GET, req_path = ''/users/doesnotexist'', req_json = None\<rparr> one_user_store =
     (\<lparr>status_code = 404, content = PDict [(''detail'', PStr ''No user found'')]\<rparr>, one_user_store) \<and>
   delete_user simple_pydantic mem_collection ''nonexistent@example.com'' one_user_store =
     (Inl (HTTPException 404 ''No user found''), one_user_store) \<and>
   app simple_pydantic mem_collection
     \<lparr>req_method = DELETE, req_path = ''/users/nonexistent@example.com'', req_json = None\<rparr>
     one_user_store =
     (\<lparr>status_code = 404, content = PDict [(''detail'', PStr ''No user found'')]\<rparr>, one_user_store)"
  using not_found_passes_through [of mem_collection "''doesnotexist''" one_user_store one_user_store
          simple_pydantic None]
        not_found_passes_through [of mem_collection "''nonexistent@example.com''" one_user_store
          one_user_store simple_pydantic None]
  by (simp add: find_none_by_search find_none_by_email)

section \<open>What list and search return\<close>

lemma app_get_users:
  "app lib users \<lparr>req_method = GET, req_path = ''/users/'', req_json = b\<rparr> s =
     (case get_users lib users s of
        (Inl err, s') \<Rightarrow> (error_response err, s')
      | (Inr user_list, s') \<Rightarrow>
          (\<lparr>status_code = HTTP_200_OK,
            content = PList (map (\<lambda>r. PDict (UserResponse_model_dump r)) user_list)\<rparr>, s'))"
  by (simp only: app_def request.simps app_get_users_route routed.case endpoint.case)

lemma dump_no_internal:
  "map_of (UserResponse_model_dump u) ''is_active'' = None \<and>
   map_of (UserResponse_model_dump u) ''signup_ts'' = None"
  by (simp add: UserResponse_model_dump_def)

lemma get_users_raises_http:
  "get_users lib users s = (Inl err, s1) \<Longrightarrow> \<exists>d. err = HTTPException 500 d"
  unfolding get_users_def HTTP_500_INTERNAL_SERVER_ERROR_def
  by (cases "find_many users QAll s"; cases "fst (find_many users QAll s)";
      cases "validate_each lib (projr (fst (find_many users QAll s)))") auto

lemma list_one_user:
  "app simple_pydantic mem_collection
     \<lparr>req_method = GET, req_path = ''/users/'', req_json = None\<rparr> one_user_store =
     (\<lparr>status_code = 200,
       content = PList [PDict [(''username'', PStr ''alice01''),
                               (''email'', PStr ''alice@example.com''),
                               (''full_name'', PStr []),
                               (''roles'', PList [PStr ''user''])]]\<rparr>, one_user_store)"
  by code_simp

lemma search_one_user:
  "app simple_pydantic mem_collection
     \<lparr>req_method = GET, req_path = ''/users/alice01'', req_json = None\<rparr> one_user_store =
     (\<lparr>status_code = 200,
       content = PList [PDict [(''username'', PStr ''alice01''),
                               (''email'', PStr ''alice@example.com''),
                               (''full_name'', PStr []),
                               (''roles'', PList [PStr ''user''])]]\<rparr>, one_user_store)"
  by code_simp

lemma alice_doc_internal:
  "map_of alice_doc ''_id'' = Some (PObjectId 0) \<and>
   map_of alice_doc ''is_active'' = Some (PBool True) \<and>
   map_of alice_doc ''signup_ts'' = Some PNone"
  by (simp add: alice_doc_def)

text \<open>
  C9. Whatever the collection and its state, when the answer to \<open>GET /users/\<close> is a list,
  every element of that list is an object with no \<open>is_active\<close> field and no \<open>signup_ts\<close>
  field.
\<close>

theorem list_omits_internal_fields:
  assumes "app lib users \<lparr>req_method = GET, req_path = ''/users/'', req_json = b\<rparr> s = (resp, s')"
    and "content resp = PList xs" and "x \<in> set xs"
  shows "\<exists>d. x = PDict d \<and> map_of d ''is_active'' = None \<and> map_of d ''signup_ts'' = None"
proof -
  obtain r s1 where r: "get_users lib users s = (r, s1)"
    by (cases "get_users lib users s")
  show ?thesis
  proof (cases r)
    case (Inl err)
    with r have "get_users lib users s = (Inl err, s1)"
      by simp
    from get_users_raises_http [OF this] obtain d where d: "err = HTTPException 500 d"
      by (rule exE)
    have "resp = error_response err"
      using assms(1) by (simp add: app_get_users r Inl)
    then have "content resp = PDict [(''detail'', PStr d)]"
      by (simp add: d error_response_def)
    with assms(2) show ?thesis by simp
  next
    case (Inr user_list)
    have "resp = \<lparr>status_code = HTTP_200_OK,
            content = PList (map (\<lambda>r. PDict (UserResponse_model_dump r)) user_list)\<rparr>"
      using assms(1) by (simp add: app_get_users r Inr)
    then have "xs = map (\<lambda>r. PDict (UserResponse_model_dump r)) user_list"
      using assms(2) by simp
    with assms(3) obtain u where "x = PDict (UserResponse_model_dump u)"
      by auto
    then show ?thesis
      by (simp add: dump_no_internal)
  qed
qed

theorem list_omits_internal_fields_witness:
  "map_of alice_doc ''is_active'' = Some (PBool True) \<and>
   map_of alice_doc ''signup_ts'' = Some PNone \<and>
   (\<exists>resp xs x d. app simple_pydantic mem_collection
        \<lparr>req_method = GET, req_path = ''/users/'', req_json = None\<rparr> one_user_store =
        (resp, one_user_store) \<and> content resp = PList xs \<and> x \<in> set xs \<and>
      x = PDict d \<and> map_of d ''username'' = Some (PStr ''alice01'') \<and>
      map_of d ''is_active'' = None \<and> map_of d ''signup_ts'' = None)"
proof -
  let ?x = "PDict [(''username'', PStr ''alice01''), (''email'', PStr ''alice@example.com''),
                   (''full_name'', PStr []), (''roles'', PList [PStr ''user''])]"
  have c: "content \<lparr>status_code = 200, content = PList [?x]\<rparr> = PList [?x]"
    by simp
  have m: "?x \<in> set [?x]"
    by simp
  from list_omits_internal_fields [OF list_one_user c m]
  obtain d where d: "?x = PDict d" "map_of d ''is_active'' = None" "map_of d ''signup_ts'' = None"
    by (elim exE conjE)
  have u: "map_of d ''username'' = Some (PStr ''alice01'')"
    using d(1) by auto
  show ?thesis
    apply (simp only: alice_doc_internal simp_thms)
    apply (rule exI [of _ "\<lparr>status_code = 200, content = PList [?x]\<rparr>"])
    apply (rule exI [of _ "[?x]"])
    apply (rule exI [of _ ?x])
    apply (rule exI [of _ d])
    apply (simp add: list_one_user d u)
    done
qed

text \<open>
  C1. The projection keeps \<open>username\<close>, \<open>email\<close>, \<open>full_name\<close> and \<open>roles\<close> and nothing else:
  for a stored user whose document carries the identifier \<open>_id\<close>, the objects returned by
  list and by search have these four fields and no identifier.
\<close>

theorem projection_drops_identifier:
  "map_of alice_doc ''_id'' = Some (PObjectId 0) \<and>
   app simple_pydantic mem_collection
     \<lparr>req_method = GET, req_path = ''/users/'', req_json = None\<rparr> one_user_store =
     (\<lparr>status_code = 200,
       content = PList [PDict [(''username'', PStr ''alice01''),
                               (''email'', PStr ''alice@example.com''),
                               (''full_name'', PStr []),
                               (''roles'', PList [PStr ''user''])]]\<rparr>, one_user_store) \<and>
   app simple_pydantic mem_collection
     \<lparr>req_method = GET, req_path = ''/users/alice01'', req_json = None\<rparr> one_user_store =
     (\<lparr>status_code = 200,
       content = PList [PDict [(''username'', PStr ''alice01''),
                               (''email'', PStr ''alice@example.com''),
                               (''full_name'', PStr []),
                               (''roles'', PList [PStr ''user''])]]\<rparr>, one_user_store) \<and>
   map fst (UserResponse_model_dump r) = [''username'', ''email'', ''full_name'', ''roles'']"
  using list_one_user search_one_user alice_doc_internal
  by (simp add: UserResponse_model_dump_def)

section \<open>The re-fetch after an insert\<close>

lemma str_nat_500: "str_nat 500 = ''500''"
  by code_simp

lemma create_lost_request:
  "app simple_pydantic recording_collection
     \<lparr>req_method = POST, req_path = ''/users/'',
      req_json = Some (PDict [(''username'', PStr ''testuser''),
                              (''email'', PStr ''test@example.com'')])\<rparr> [] =
     (\<lparr>status_code = 500, content = PDict [(''detail'', PStr ''500: Failed to create user'')]\<rparr>,
      [InsertOne [(''username'', PStr ''testuser''), (''email'', PStr ''test@example.com''),
                  (''full_name'', PStr []), (''is_active'', PBool True), (''signup_ts'', PNone),
                  (''roles'', PList [])],
       FindOne (QEq ''_id'' (PObjectId 0))])"
  by code_simp

text \<open>
  C2. On a collection whose \<open>find_one\<close> returns nothing after the insert, \<open>create_user\<close>
  raises \<open>HTTPException(500, "Failed to create user")\<close> inside its \<open>try\<close> block; the handler
  has no \<open>except HTTPException\<close> clause, so \<open>except Exception\<close> catches it and raises a new
  500 whose detail is \<open>str(err)\<close>, which is \<open>"500: Failed to create user"\<close>.
\<close>

theorem create_inconsistency_rewrapped:
  "create_user lib recording_collection user [] =
     (Inl (HTTPException 500 ''500: Failed to create user''),
      [InsertOne (User_model_dump user), FindOne (QEq ''_id'' (PObjectId 0))]) \<and>
   fst (app simple_pydantic recording_collection
     \<lparr>req_method = POST, req_path = ''/users/'',
      req_json = Some (PDict [(''username'', PStr ''testuser''),
                              (''email'', PStr ''test@example.com'')])\<rparr> []) =
     \<lparr>status_code = 500, content = PDict [(''detail'', PStr ''500: Failed to create user'')]\<rparr>"
  by (simp add: create_user_def recording_collection_def create_user_except_def str_exn_def
       HTTP_500_INTERNAL_SERVER_ERROR_def str_nat_500 create_lost_request [unfolded recording_collection_def])

section \<open>The items route\<close>

text \<open>
  C5. \<open>routers/items.py\<close> registers \<open>get_items\<close> at \<open>/\<close> of its own router, but no route of
  \<open>app\<close> matches \<open>/items/\<close>: the application answers \<open>GET /items/\<close> with 404.
\<close>

theorem items_route_not_registered:
  "app lib users \<lparr>req_method = GET, req_path = ''/items/'', req_json = b\<rparr> s =
     (\<lparr>status_code = 404, content = PDict [(''detail'', PStr ''Not Found'')]\<rparr>, s) \<and>
   full_match items_router_routes GET ''/'' = Some (GetItems, []) \<and>
   full_match app_routes GET ''/items/'' = None"
  by (simp add: app_def route_request_def app_routes_def path_params_def path_matches_def
        toggle_slash_def items_router_routes_def)

section \<open>Trimming is idempotent; the shape of model validation\<close>

lemma last_dropWhile: "dropWhile P xs \<noteq> [] \<Longrightarrow> last (dropWhile P xs) = last xs"
  by (induction xs) (auto split: if_splits)

lemma dropWhile_keep: "xs \<noteq> [] \<Longrightarrow> \<not> P (hd xs) \<Longrightarrow> dropWhile P xs = xs"
  by (cases xs) auto

lemma strip_hd: "strip_whitespace s \<noteq> [] \<Longrightarrow> \<not> is_whitespace (hd (strip_whitespace s))"
proof -
  assume ne: "strip_whitespace s \<noteq> []"
  let ?d = "dropWhile is_whitespace s"
  from ne have d: "dropWhile is_whitespace (rev ?d) \<noteq> []"
    by (simp add: strip_whitespace_def)
  then have dne: "?d \<noteq> []"
    by (cases "dropWhile is_whitespace s") simp_all
  have "hd (strip_whitespace s) = last (dropWhile is_whitespace (rev ?d))"
    using d by (simp add: strip_whitespace_def hd_rev)
  also have "\<dots> = last (rev ?d)"
    using d by (rule last_dropWhile)
  also have "\<dots> = hd ?d"
    using dne by (simp add: last_rev)
  finally show ?thesis
    using dne hd_dropWhile [of is_whitespace s] by simp
qed

lemma strip_fixed:
  "s = [] \<or> (\<not> is_whitespace (hd s) \<and> \<not> is_whitespace (last s)) \<Longrightarrow> strip_whitespace s = s"
proof (cases s)
  case Nil
  then show ?thesis by (simp add: strip_whitespace_def)
next
  case (Cons c cs)
  assume "s = [] \<or> (\<not> is_whitespace (hd s) \<and> \<not> is_whitespace (last s))"
  with Cons have h: "\<not> is_whitespace c" and l: "\<not> is_whitespace (last s)"
    by auto
  from h Cons have 1: "dropWhile is_whitespace s = s"
    by simp
  from Cons have "rev s \<noteq> []" by simp
  moreover from Cons have "hd (rev s) = last s"
    by (simp add: hd_rev)
  ultimately have 2: "dropWhile is_whitespace (rev s) = rev s"
    using l by (simp add: dropWhile_keep)
  show ?thesis
    by (simp add: strip_whitespace_def 1 2)
qed

lemma strip_idem: "strip_whitespace (strip_whitespace s) = strip_whitespace s"
  using strip_hd [of s] strip_last [of s] by (intro strip_fixed) auto

lemma strip_no_whitespace:
  "list_all (\<lambda>c. \<not> is_whitespace c) s \<Longrightarrow> strip_whitespace s = s"
  by (rule strip_fixed) (cases "s = []"; simp add: list_all_iff)

lemma stable_simple_pydantic: "stable_library simple_pydantic"
  by (auto simp: stable_library_def simple_pydantic_def simple_email_def strip_no_whitespace
      split: if_splits)

lemma User_model_validate_PDict:
  "User_model_validate lib (PDict d) =
     (let r1 = model_field d ''username'' None User_username;
          r2 = model_field d ''email'' None (User_email lib);
          r3 = model_field d ''full_name'' (Some []) User_full_name;
          r4 = model_field d ''is_active'' (Some True) (User_is_active lib);
          r5 = model_field d ''signup_ts'' (Some None) (User_signup_ts lib);
          r6 = model_field d ''roles'' (Some []) (User_roles lib)
      in if isl r1 \<or> isl r2 \<or> isl r3 \<or> isl r4 \<or> isl r5 \<or> isl r6
         then Inl (errors_of r1 @ errors_of r2 @ errors_of r3 @ errors_of r4 @
                   errors_of r5 @ errors_of r6)
         else one_error (after_validator validate_name_requirements
                (Inr \<lparr>username = projr r1, email = projr r2, full_name = projr r3,
                      is_active = projr r4, signup_ts = projr r5, roles = projr r6\<rparr>)))"
  unfolding User_model_validate_def Let_def
  by (cases "model_field d ''username'' None User_username";
      cases "model_field d ''email'' None (User_email lib)";
      cases "model_field d ''full_name'' (Some []) User_full_name";
      cases "model_field d ''is_active'' (Some True) (User_is_active lib)";
      cases "model_field d ''signup_ts'' (Some None) (User_signup_ts lib)";
      cases "model_field d ''roles'' (Some []) (User_roles lib)"; simp)

section \<open>The validators of the fields\<close>

lemma User_username_Inr:
  assumes "User_username v = Inr x"
  shows "\<exists>raw. v = PStr raw \<and> x = strip_whitespace raw \<and> 3 \<le> length x \<and> length x \<le> 50 \<and>
           list_all is_username_char x"
proof (cases v)
  case (PStr raw)
  with assms show ?thesis
    by (simp add: User_username_PStr Let_def split: if_splits)
qed (use assms in \<open>simp_all add: User_username_def str_validator_def after_validator_def one_error_def\<close>)

lemma User_full_name_PStr:
  "User_full_name (PStr raw) =
     (if 100 < length (strip_whitespace raw)
      then Inl [LineError [] ''string_too_long'' ''String should have at most 100 characters'']
      else Inr (strip_whitespace raw))"
  by (simp add: User_full_name_def str_validator_def Let_def FULLNAME_MAX_LENGTH_def one_error_def
        str_nat_100)

lemma User_full_name_Inr:
  assumes "User_full_name v = Inr x"
  shows "\<exists>raw. v = PStr raw \<and> x = strip_whitespace raw \<and> length x \<le> 100"
proof (cases v)
  case (PStr raw)
  with assms show ?thesis
    by (simp add: User_full_name_PStr split: if_splits)
qed (use assms in \<open>simp_all add: User_full_name_def str_validator_def one_error_def\<close>)

lemma one_error_Inr: "one_error r = Inr x \<longleftrightarrow> r = Inr x"
  by (cases r) (auto simp: one_error_def)

lemma User_email_PStr:
  "User_email lib (PStr raw) = one_error (validate_email lib (strip_whitespace raw))"
  by (simp add: User_email_def str_validator_def)

lemma User_email_Inr:
  assumes "User_email lib v = Inr e"
  shows "\<exists>raw. v = PStr raw \<and> validate_email lib (strip_whitespace raw) = Inr e"
proof (cases v)
  case (PStr raw)
  with assms show ?thesis
    by (simp add: User_email_PStr one_error_Inr)
qed (use assms in \<open>simp_all add: User_email_def str_validator_def one_error_def\<close>)

lemma str_validator_plain:
  "str_validator strip None None (PStr r) = Inr (if strip then strip_whitespace r else r)"
  by (simp add: str_validator_def)

lemma list_items_PStr:
  "list_items strip i (map PStr rs) = ([], map (\<lambda>r. if strip then strip_whitespace r else r) rs)"
  by (induction rs arbitrary: i) (simp_all add: str_validator_plain)

lemma str_validator_plain_Inr:
  "str_validator strip None None v = Inr x \<Longrightarrow>
   \<exists>r. v = PStr r \<and> x = (if strip then strip_whitespace r else r)"
  by (cases v) (simp_all add: str_validator_def)

lemma list_items_Inr:
  "list_items strip i vs = ([], xs) \<Longrightarrow>
   \<exists>rs. vs = map PStr rs \<and> xs = map (\<lambda>r. if strip then strip_whitespace r else r) rs"
proof (induction vs arbitrary: i xs)
  case Nil
  then show ?case by simp
next
  case (Cons v vs)
  obtain errs ys where rest: "list_items strip (Suc i) vs = (errs, ys)"
    by (cases "list_items strip (Suc i) vs")
  show ?case
  proof (cases "str_validator strip None None v")
    case (Inl e)
    with Cons.prems rest show ?thesis
      by (cases e) simp
  next
    case (Inr x)
    with Cons.prems rest have e: "errs = []" and xs: "xs = x # ys"
      by simp_all
    from Cons.IH [OF rest [unfolded e]] obtain rs where
      rs: "vs = map PStr rs" "ys = map (\<lambda>r. if strip then strip_whitespace r else r) rs"
      by (elim exE conjE)
    from str_validator_plain_Inr [OF Inr] obtain r where
      r: "v = PStr r" "x = (if strip then strip_whitespace r else r)"
      by (elim exE conjE)
    show ?thesis
      by (rule exI [of _ "r # rs"]) (simp add: rs r xs)
  qed
qed

lemma list_str_validator_PList:
  "list_str_validator strip (PList (map PStr rs)) =
     Inr (map (\<lambda>r. if strip then strip_whitespace r else r) rs)"
  by (simp add: list_str_validator_def list_items_PStr)

lemma list_str_validator_Inr:
  assumes "list_str_validator strip v = Inr xs"
  shows "\<exists>rs. v = PList (map PStr rs) \<and> xs = map (\<lambda>r. if strip then strip_whitespace r else r) rs"
proof (cases v)
  case (PList vs)
  obtain errs ys where li: "list_items strip 0 vs = (errs, ys)"
    by (cases "list_items strip 0 vs")
  with assms PList have "errs = []" and "ys = xs"
    by (cases errs; simp add: list_str_validator_def)+
  with li list_items_Inr [of strip 0 vs xs] PList show ?thesis
    by simp
qed (use assms in \<open>simp_all add: list_str_validator_def\<close>)

lemma validate_roles_eq:
  "validate_roles f rs =
     (if set rs \<subseteq> set ALLOWED_ROLES then Inr rs
      else Inl (''Invalid roles: '' @
                join '', '' (f (filter (\<lambda>r. r \<notin> set ALLOWED_ROLES) rs)) @ ''. '' @
                ''Must be one of: '' @ join '', '' (f ALLOWED_ROLES)))"
proof -
  have "(filter (\<lambda>r. r \<notin> set ALLOWED_ROLES) rs = []) = (set rs \<subseteq> set ALLOWED_ROLES)"
    by (auto simp: filter_empty_conv)
  then show ?thesis
    by (simp add: validate_roles_def Let_def)
qed

lemma User_roles_PList:
  "User_roles lib (PList (map PStr rs)) =
     (if set (map strip_whitespace rs) \<subseteq> set ALLOWED_ROLES then Inr (map strip_whitespace rs)
      else Inl [LineError [] ''value_error''
                 (''Value error, Invalid roles: '' @
                  join '', '' (set_iteration lib
                    (filter (\<lambda>r. r \<notin> set ALLOWED_ROLES) (map strip_whitespace rs))) @
                  ''. Must be one of: '' @ join '', '' (set_iteration lib ALLOWED_ROLES))])"
  by (simp add: User_roles_def list_str_validator_PList after_validator_def validate_roles_eq
        one_error_def value_error_def)

lemma User_roles_Inr:
  assumes "User_roles lib v = Inr xs"
  shows "\<exists>rs. v = PList (map PStr rs) \<and> xs = map strip_whitespace rs \<and> set xs \<subseteq> set ALLOWED_ROLES"
proof (cases "list_str_validator True v")
  case (Inl errs)
  with assms show ?thesis
    by (simp add: User_roles_def)
next
  case (Inr ys)
  from list_str_validator_Inr [OF Inr] obtain rs where
    rs: "v = PList (map PStr rs)" "ys = map strip_whitespace rs"
    by auto
  with assms have "xs = map strip_whitespace rs \<and> set xs \<subseteq> set ALLOWED_ROLES"
    by (auto simp: User_roles_PList split: if_splits)
  with rs(1) show ?thesis
    by (intro exI [of _ rs]) auto
qed

lemma model_field_Inr:
  "model_field d k dflt f = Inr x \<longleftrightarrow>
     (map_of d k = None \<and> dflt = Some x) \<or> (\<exists>v. map_of d k = Some v \<and> f v = Inr x)"
  by (cases "map_of d k"; cases dflt; cases "f (the (map_of d k))"; simp add: model_field_def)

lemma User_is_active_Inr: "User_is_active lib v = Inr a \<longleftrightarrow> validate_bool lib v = Inr a"
  by (simp add: User_is_active_def one_error_Inr)

lemma validate_name_requirements_eq:
  "one_error (after_validator validate_name_requirements (Inr u)) = Inr u' \<longleftrightarrow>
     u' = u \<and> \<not> (full_name u = [] \<and> username u = ANONYMOUS_USERNAME)"
  by (auto simp: after_validator_def validate_name_requirements_def one_error_def value_error_def)

lemma User_model_validate_Inr:
  "User_model_validate lib (PDict d) = Inr u \<longleftrightarrow>
     model_field d ''username'' None User_username = Inr (username u) \<and>
     model_field d ''email'' None (User_email lib) = Inr (email u) \<and>
     model_field d ''full_name'' (Some []) User_full_name = Inr (full_name u) \<and>
     model_field d ''is_active'' (Some True) (User_is_active lib) = Inr (is_active u) \<and>
     model_field d ''signup_ts'' (Some None) (User_signup_ts lib) = Inr (signup_ts u) \<and>
     model_field d ''roles'' (Some []) (User_roles lib) = Inr (roles u) \<and>
     \<not> (full_name u = [] \<and> username u = ANONYMOUS_USERNAME)"
  unfolding User_model_validate_PDict Let_def
  by (cases "model_field d ''username'' None User_username";
      cases "model_field d ''email'' None (User_email lib)";
      cases "model_field d ''full_name'' (Some []) User_full_name";
      cases "model_field d ''is_active'' (Some True) (User_is_active lib)";
      cases "model_field d ''signup_ts'' (Some None) (User_signup_ts lib)";
      cases "model_field d ''roles'' (Some []) (User_roles lib)";
      cases u; simp add: validate_name_requirements_eq; blast?)

lemma User_model_validate_dict:
  "User_model_validate lib v = Inr u \<Longrightarrow> \<exists>d. v = PDict d"
  by (cases v) (simp_all add: User_model_validate_def)

section \<open>Validated users are stable under a second validation\<close>

lemma allowed_roles_trimmed: "r \<in> set ALLOWED_ROLES \<Longrightarrow> strip_whitespace r = r"
  by (auto simp: ALLOWED_ROLES_def strip_whitespace_def is_whitespace_def)

lemma valid_user_of_validate:
  assumes st: "stable_library lib" and v: "User_model_validate lib body = Inr u"
  shows "valid_user lib u"
proof -
  from User_model_validate_dict [OF v] obtain d where d: "body = PDict d" ..
  note f = v [unfolded d User_model_validate_Inr]
  from f have "\<exists>v. User_username v = Inr (username u)"
    by (auto simp: model_field_Inr)
  then obtain v1 where "User_username v1 = Inr (username u)" ..
  from User_username_Inr [OF this] obtain raw where
    un: "username u = strip_whitespace raw" "3 \<le> length (username u)" "length (username u) \<le> 50"
        "list_all is_username_char (username u)"
    by auto
  from f have "\<exists>v. User_email lib v = Inr (email u)"
    by (auto simp: model_field_Inr)
  then obtain v2 where "User_email lib v2 = Inr (email u)" ..
  from User_email_Inr [OF this] obtain raw2 where "validate_email lib (strip_whitespace raw2) = Inr (email u)"
    by auto
  with st have em: "validate_email lib (email u) = Inr (email u)" "strip_whitespace (email u) = email u"
    unfolding stable_library_def by metis+
  from f have "full_name u = [] \<or> (\<exists>v. User_full_name v = Inr (full_name u))"
    by (auto simp: model_field_Inr)
  then have fn: "strip_whitespace (full_name u) = full_name u \<and> length (full_name u) \<le> 100"
  proof
    assume "full_name u = []"
    then show ?thesis by (simp add: strip_whitespace_def)
  next
    assume "\<exists>v. User_full_name v = Inr (full_name u)"
    then obtain v3 where "User_full_name v3 = Inr (full_name u)" ..
    from User_full_name_Inr [OF this] obtain raw3 where
      "full_name u = strip_whitespace raw3" "length (full_name u) \<le> 100"
      by auto
    then show ?thesis by (metis strip_idem)
  qed
  from f have "roles u = [] \<or> (\<exists>v. User_roles lib v = Inr (roles u))"
    by (auto simp: model_field_Inr)
  then have ro: "list_all (\<lambda>r. strip_whitespace r = r \<and> r \<in> set ALLOWED_ROLES) (roles u)"
  proof
    assume "roles u = []"
    then show ?thesis by simp
  next
    assume "\<exists>v. User_roles lib v = Inr (roles u)"
    then obtain v4 where "User_roles lib v4 = Inr (roles u)" ..
    from User_roles_Inr [OF this] have "set (roles u) \<subseteq> set ALLOWED_ROLES"
      by auto
    then show ?thesis
      by (auto simp: list_all_iff allowed_roles_trimmed)
  qed
  from f have an: "\<not> (full_name u = [] \<and> username u = ANONYMOUS_USERNAME)"
    by simp
  show ?thesis
    unfolding valid_user_def USERNAME_MIN_LENGTH_def USERNAME_MAX_LENGTH_def FULLNAME_MAX_LENGTH_def
    using un em fn ro an by (simp add: strip_idem)
qed

lemma dump_lookup:
  "map_of ((''_id'', oid) # User_model_dump u) ''username'' = Some (PStr (username u))"
  "map_of ((''_id'', oid) # User_model_dump u) ''email'' = Some (PStr (email u))"
  "map_of ((''_id'', oid) # User_model_dump u) ''full_name'' = Some (PStr (full_name u))"
  "map_of ((''_id'', oid) # User_model_dump u) ''is_active'' = Some (PBool (is_active u))"
  "map_of ((''_id'', oid) # User_model_dump u) ''signup_ts'' =
     Some (case signup_ts u of None \<Rightarrow> PNone | Some t \<Rightarrow> PDatetime t)"
  "map_of ((''_id'', oid) # User_model_dump u) ''roles'' = Some (PList (map PStr (roles u)))"
  "map_of ((''_id'', oid) # User_model_dump u) ''_id'' = Some oid"
  "map_of (User_model_dump u) ''_id'' = None"
  by (simp_all add: User_model_dump_def)

lemma dump_lookup0:
  "map_of (User_model_dump u) ''username'' = Some (PStr (username u))"
  "map_of (User_model_dump u) ''email'' = Some (PStr (email u))"
  "map_of (User_model_dump u) ''full_name'' = Some (PStr (full_name u))"
  "map_of (User_model_dump u) ''roles'' = Some (PList (map PStr (roles u)))"
  by (simp_all add: User_model_dump_def)

lemma roles_fixed:
  "list_all (\<lambda>r. strip_whitespace r = r \<and> r \<in> set ALLOWED_ROLES) rs \<Longrightarrow>
   map strip_whitespace rs = rs \<and> set rs \<subseteq> set ALLOWED_ROLES"
  by (induction rs) auto

lemma User_signup_ts_dump:
  "stable_library lib \<Longrightarrow>
   User_signup_ts lib (case t of None \<Rightarrow> PNone | Some x \<Rightarrow> PDatetime x) = Inr t"
  by (cases t) (simp_all add: User_signup_ts_def stable_library_def one_error_def)

lemma revalidate:
  assumes st: "stable_library lib" and vu: "valid_user lib u"
  shows "User_model_validate lib (PDict ((''_id'', oid) # User_model_dump u)) = Inr u"
proof -
  from vu have un: "User_username (PStr (username u)) = Inr (username u)"
    by (auto simp: valid_user_def User_username_PStr Let_def USERNAME_MIN_LENGTH_def
          USERNAME_MAX_LENGTH_def)
  from vu have em: "User_email lib (PStr (email u)) = Inr (email u)"
    by (simp add: valid_user_def User_email_PStr one_error_def)
  from vu have fn: "User_full_name (PStr (full_name u)) = Inr (full_name u)"
    by (simp add: valid_user_def User_full_name_PStr FULLNAME_MAX_LENGTH_def)
  from st have ac: "User_is_active lib (PBool (is_active u)) = Inr (is_active u)"
    by (simp add: User_is_active_Inr stable_library_def)
  from vu have "map strip_whitespace (roles u) = roles u \<and> set (roles u) \<subseteq> set ALLOWED_ROLES"
    by (intro roles_fixed) (simp add: valid_user_def)
  then have ro: "User_roles lib (PList (map PStr (roles u))) = Inr (roles u)"
    by (simp add: User_roles_PList)
  from vu have an: "\<not> (full_name u = [] \<and> username u = ANONYMOUS_USERNAME)"
    by (simp add: valid_user_def)
  show ?thesis
    unfolding User_model_validate_Inr model_field_Inr dump_lookup
    using un em fn ac ro an User_signup_ts_dump [OF st] by simp
qed

lemma project:
  assumes vu: "valid_user lib u"
  shows "UserResponse_model_validate lib (PDict ((''_id'', oid) # User_model_dump u)) =
           Inr (response_of u)"
proof -
  from vu have em: "validate_email lib (email u) = Inr (email u)"
    by (simp add: valid_user_def)
  have ro: "list_str_validator False (PList (map PStr (roles u))) = Inr (roles u)"
    by (simp add: list_str_validator_PList)
  show ?thesis
    unfolding UserResponse_model_validate_def Let_def
    by (simp add: model_field_def dump_lookup0 str_validator_plain one_error_def em ro
          response_of_def)
qed

section \<open>Create and search on the in-memory store\<close>

lemma find_append:
  "List.find P (xs @ ys) = (case List.find P xs of None \<Rightarrow> List.find P ys | Some x \<Rightarrow> Some x)"
  by (induction xs) simp_all

lemma find_none: "list_all (\<lambda>x. \<not> P x) xs \<Longrightarrow> List.find P xs = None"
  by (induction xs) simp_all

lemma fresh_id_no_match:
  assumes "case map_of d ''_id'' of Some (PObjectId n) \<Rightarrow> n < k | _ \<Rightarrow> False"
  shows "\<not> matches (QEq ''_id'' (PObjectId k)) d"
proof (cases "map_of d ''_id''")
  case None
  with assms show ?thesis by simp
next
  case (Some x)
  with assms show ?thesis by (cases x) simp_all
qed

lemma mem_wf_fresh:
  "mem_wf s \<Longrightarrow> list_all (\<lambda>d. \<not> matches (QEq ''_id'' (PObjectId (next_id s))) d) (docs s)"
  unfolding mem_wf_def list_all_iff
  by (rule ballI, drule (1) bspec, erule fresh_id_no_match)

lemma create_user_mem:
  assumes st: "stable_library lib" and vu: "valid_user lib u" and wf: "mem_wf s"
  shows "create_user lib mem_collection u s =
           (Inr u, \<lparr>docs = docs s @ [(''_id'', PObjectId (next_id s)) # User_model_dump u],
                    next_id = Suc (next_id s)\<rparr>)"
proof -
  let ?oid = "PObjectId (next_id s)"
  let ?new = "(''_id'', ?oid) # User_model_dump u"
  let ?s1 = "\<lparr>docs = docs s @ [?new], next_id = Suc (next_id s)\<rparr>"
  have ins: "insert_one mem_collection (User_model_dump u) s = (Inr ?oid, ?s1)"
    by (simp add: mem_collection_def mem_insert_one_def dump_lookup Let_def)
  have m: "matches (QEq ''_id'' ?oid) ?new"
    by simp
  have "List.find (matches (QEq ''_id'' ?oid)) (docs s @ [?new]) = Some ?new"
    unfolding find_append find_none [OF mem_wf_fresh [OF wf]] using m by simp
  then have fnd: "find_one mem_collection (QEq ''_id'' ?oid) ?s1 = (Inr (Some ?new), ?s1)"
    by (simp add: mem_collection_def mem_find_one_def)
  show ?thesis
    unfolding create_user_def Let_def ins
    by (simp add: fnd revalidate [OF st vu])
qed

lemma validate_each_append:
  "validate_each lib xs = Inr rs \<Longrightarrow> validate_each lib ys = Inr rs' \<Longrightarrow>
   validate_each lib (xs @ ys) = Inr (rs @ rs')"
proof (induction xs arbitrary: rs)
  case Nil
  then show ?case by simp
next
  case (Cons d ds)
  from Cons.prems(1) obtain r rs0 where
    r: "UserResponse_model_validate lib (PDict d) = Inr r" "validate_each lib ds = Inr rs0" "rs = r # rs0"
    by (cases "UserResponse_model_validate lib (PDict d)"; cases "validate_each lib ds"; simp)
  from Cons.IH [OF r(2) Cons.prems(2)] show ?case
    by (simp add: r)
qed

lemma validate_each_projectable:
  "list_all (projectable lib) xs \<Longrightarrow> \<exists>rs. validate_each lib xs = Inr rs"
proof (induction xs)
  case Nil
  then show ?case by simp
next
  case (Cons d ds)
  then obtain rs where rs: "validate_each lib ds = Inr rs"
    by auto
  from Cons.prems obtain r where "UserResponse_model_validate lib (PDict d) = Inr r"
    by (cases "UserResponse_model_validate lib (PDict d)") (simp_all add: projectable_def)
  with rs show ?case by simp
qed

lemma validate_each_new:
  "valid_user lib u \<Longrightarrow>
   validate_each lib [(''_id'', oid) # User_model_dump u] = Inr [response_of u]"
  by (simp add: project)

lemma matches_new:
  assumes "search = username u \<or> search = email u"
  shows "matches (QOr [QEq ''email'' (PStr search), QEq ''username'' (PStr search)])
     ((''_id'', oid) # User_model_dump u)"
proof -
  have 1: "matches (QEq ''email'' (PStr (email u))) ((''_id'', oid) # User_model_dump u)"
    by (simp add: dump_lookup0)
  have 2: "matches (QEq ''username'' (PStr (username u))) ((''_id'', oid) # User_model_dump u)"
    by (simp add: dump_lookup0)
  from assms show ?thesis
  proof
    assume "search = username u"
    with 2 show ?thesis by (simp del: matches.simps(2))
  next
    assume "search = email u"
    with 1 show ?thesis by (simp del: matches.simps(2))
  qed
qed

lemma find_many_mem:
  "find_many mem_collection q s = (Inr (filter (matches q) (docs s)), s)"
  by (simp add: mem_collection_def mem_find_many_def)

lemma get_user_mem:
  assumes pr: "list_all (projectable lib) ds" and vu: "valid_user lib u"
    and se: "search = username u \<or> search = email u"
  shows "\<exists>rs. get_user lib mem_collection search
               \<lparr>docs = ds @ [(''_id'', oid) # User_model_dump u], next_id = n\<rparr> =
             (Inr (rs @ [response_of u]),
              \<lparr>docs = ds @ [(''_id'', oid) # User_model_dump u], next_id = n\<rparr>)"
proof -
  define q where "q = QOr [QEq ''email'' (PStr search), QEq ''username'' (PStr search)]"
  define new where "new = (''_id'', oid) # User_model_dump u"
  define s where "s = \<lparr>docs = ds @ [new], next_id = n\<rparr>"
  have mn: "matches q new"
    unfolding q_def new_def by (rule matches_new [OF se])
  have fm: "find_many mem_collection q s = (Inr (filter (matches q) ds @ [new]), s)"
    by (simp add: find_many_mem s_def mn)
  from pr have "list_all (projectable lib) (filter (matches q) ds)"
    by (simp add: list_all_iff)
  from validate_each_projectable [OF this] obtain rs where
    rs: "validate_each lib (filter (matches q) ds) = Inr rs" ..
  have "validate_each lib [new] = Inr [response_of u]"
    unfolding new_def by (rule validate_each_new [OF vu])
  with rs have ve: "validate_each lib (filter (matches q) ds @ [new]) = Inr (rs @ [response_of u])"
    by (rule validate_each_append)
  have g: "get_user lib mem_collection search s = (Inr (rs @ [response_of u]), s)"
    unfolding get_user_def Let_def q_def [symmetric] fm by (simp add: ve)
  show ?thesis
    by (rule exI [of _ rs]) (rule g [unfolded s_def new_def])
qed

lemma username_char_not_slash:
  "list_all is_username_char x \<Longrightarrow> CHR ''/'' \<notin> set x"
  by (auto simp: list_all_iff is_username_char_def)

lemma id_bound_Suc:
  assumes "case map_of d ''_id'' of Some (PObjectId n) \<Rightarrow> n < k | _ \<Rightarrow> False"
  shows "case map_of d ''_id'' of Some (PObjectId n) \<Rightarrow> n < Suc k | _ \<Rightarrow> False"
proof (cases "map_of d ''_id''")
  case None
  with assms show ?thesis by simp
next
  case (Some x)
  with assms show ?thesis by (cases x) simp_all
qed

lemma store_inv_insert:
  assumes inv: "store_inv lib s" and vu: "valid_user lib u"
  shows "store_inv lib \<lparr>docs = docs s @ [(''_id'', PObjectId (next_id s)) # User_model_dump u],
                         next_id = Suc (next_id s)\<rparr>"
proof -
  have old: "list_all (\<lambda>d. case map_of d ''_id'' of Some (PObjectId n) \<Rightarrow> n < Suc (next_id s) | _ \<Rightarrow> False)
               (docs s)"
    using inv unfolding store_inv_def mem_wf_def list_all_iff
    by (intro ballI id_bound_Suc) simp
  have new: "projectable lib ((''_id'', PObjectId (next_id s)) # User_model_dump u)"
    by (simp add: projectable_def project [OF vu])
  from inv have "list_all (projectable lib) (docs s)"
    by (simp add: store_inv_def)
  with old new show ?thesis
    by (simp add: store_inv_def mem_wf_def dump_lookup cong: option.case_cong pyval.case_cong)
qed

lemma app_create_valid:
  assumes "User_model_validate lib body = Inr u"
  shows "app lib users \<lparr>req_method = POST, req_path = ''/users/'', req_json = Some body\<rparr> s =
     (case create_user lib users u s of
        (Inl err, s') \<Rightarrow> (error_response err, s')
      | (Inr u', s') \<Rightarrow>
          (\<lparr>status_code = HTTP_201_CREATED, content = PDict (User_model_dump u')\<rparr>, s'))"
  by (simp add: app_def app_create_route assms)

lemma defaults_apply:
  assumes "User_model_validate lib (PDict d) = Inr u"
  shows "(map_of d ''full_name'' = None \<longrightarrow> full_name u = []) \<and>
         (map_of d ''roles'' = None \<longrightarrow> roles u = [])"
  using assms unfolding User_model_validate_Inr model_field_Inr by auto

section \<open>The round trip\<close>

lemma response_of_dump:
  "UserResponse_model_dump (response_of u) =
     [(''username'', PStr (username u)), (''email'', PStr (email u)),
      (''full_name'', PStr (full_name u)), (''roles'', PList (map PStr (roles u)))]"
  by (simp add: UserResponse_model_dump_def response_of_def)

text \<open>
  C4 (as amended). Take the in-memory store in a state where every stored document is
  accepted by \<open>UserResponse\<close> and the identifiers are the ones the store handed out (a
  condition that holds of the empty store and that a creation preserves), and a validation
  library whose results are stable. A create request whose body validates to the user \<open>u\<close> is
  answered with 201 and the six fields of \<open>u\<close>, and the document with these fields is stored.
  Afterwards \<open>GET /users/{username of u}\<close> is answered with 200 and a list that contains the
  object with \<open>u\<close>'s \<open>username\<close>, \<open>email\<close>, \<open>full_name\<close> and \<open>roles\<close>; so is
  \<open>GET /users/{email of u}\<close> when the address is not empty and contains no \<open>/\<close>; and the
  search handler called with the username or with the address returns the record with these
  four fields, for every address. When the body has no \<open>full_name\<close> the stored and returned
  \<open>full_name\<close> is empty, and when it has no \<open>roles\<close> the stored and returned \<open>roles\<close> is the
  empty list.
\<close>

theorem create_then_fetch:
  assumes st: "stable_library lib" and inv: "store_inv lib s"
    and v: "User_model_validate lib (PDict d) = Inr u"
  shows "\<exists>s'. app lib mem_collection
                \<lparr>req_method = POST, req_path = ''/users/'', req_json = Some (PDict d)\<rparr> s =
              (\<lparr>status_code = 201,
                content = PDict [(''username'', PStr (username u)), (''email'', PStr (email u)),
                                 (''full_name'', PStr (full_name u)),
                                 (''is_active'', PBool (is_active u)),
                                 (''signup_ts'',
                                    (case signup_ts u of None \<Rightarrow> PNone | Some t \<Rightarrow> PDatetime t)),
                                 (''roles'', PList (map PStr (roles u)))]\<rparr>, s') \<and>
            docs s' = docs s @
              [[(''_id'', PObjectId (next_id s)),
                (''username'', PStr (username u)), (''email'', PStr (email u)),
                (''full_name'', PStr (full_name u)), (''is_active'', PBool (is_active u)),
                (''signup_ts'', (case signup_ts u of None \<Rightarrow> PNone | Some t \<Rightarrow> PDatetime t)),
                (''roles'', PList (map PStr (roles u)))]] \<and>
            store_inv lib s' \<and>
            (\<exists>objs. app lib mem_collection
                      \<lparr>req_method = GET, req_path = ''/users/'' @ username u, req_json = None\<rparr> s' =
                    (\<lparr>status_code = 200, content = PList objs\<rparr>, s') \<and>
                  PDict [(''username'', PStr (username u)), (''email'', PStr (email u)),
                         (''full_name'', PStr (full_name u)),
                         (''roles'', PList (map PStr (roles u)))] \<in> set objs) \<and>
            (email u \<noteq> [] \<and> CHR ''/'' \<notin> set (email u) \<longrightarrow>
               (\<exists>objs. app lib mem_collection
                      \<lparr>req_method = GET, req_path = ''/users/'' @ email u, req_json = None\<rparr> s' =
                    (\<lparr>status_code = 200, content = PList objs\<rparr>, s') \<and>
                  PDict [(''username'', PStr (username u)), (''email'', PStr (email u)),
                         (''full_name'', PStr (full_name u)),
                         (''roles'', PList (map PStr (roles u)))] \<in> set objs)) \<and>
            (\<exists>rs. get_user lib mem_collection (username u) s' = (Inr rs, s') \<and>
                  \<lparr>resp_username = username u, resp_email = email u,
                   resp_full_name = full_name u, resp_roles = roles u\<rparr> \<in> set rs) \<and>
            (\<exists>rs. get_user lib mem_collection (email u) s' = (Inr rs, s') \<and>
                  \<lparr>resp_username = username u, resp_email = email u,
                   resp_full_name = full_name u, resp_roles = roles u\<rparr> \<in> set rs) \<and>
            (map_of d ''full_name'' = None \<longrightarrow> full_name u = []) \<and>
            (map_of d ''roles'' = None \<longrightarrow> roles u = [])"
proof -
  define new where "new = (''_id'', PObjectId (next_id s)) # User_model_dump u"
  define s' where "s' = \<lparr>docs = docs s @ [new], next_id = Suc (next_id s)\<rparr>"
  define obj where "obj = PDict [(''username'', PStr (username u)), (''email'', PStr (email u)),
                         (''full_name'', PStr (full_name u)),
                         (''roles'', PList (map PStr (roles u)))]"
  have vu: "valid_user lib u"
    by (rule valid_user_of_validate [OF st v])
  from inv have wf: "mem_wf s" and pr: "list_all (projectable lib) (docs s)"
    by (simp_all add: store_inv_def)
  have cr: "create_user lib mem_collection u s = (Inr u, s')"
    unfolding s'_def new_def by (rule create_user_mem [OF st vu wf])
  have post: "app lib mem_collection
                \<lparr>req_method = POST, req_path = ''/users/'', req_json = Some (PDict d)\<rparr> s =
              (\<lparr>status_code = 201,
                content = PDict [(''username'', PStr (username u)), (''email'', PStr (email u)),
                                 (''full_name'', PStr (full_name u)),
                                 (''is_active'', PBool (is_active u)),
                                 (''signup_ts'',
                                    (case signup_ts u of None \<Rightarrow> PNone | Some t \<Rightarrow> PDatetime t)),
                                 (''roles'', PList (map PStr (roles u)))]\<rparr>, s')"
    by (simp add: app_create_valid [OF v] cr HTTP_201_CREATED_def User_model_dump_def)
  have stored: "docs s' = docs s @
              [[(''_id'', PObjectId (next_id s)),
                (''username'', PStr (username u)), (''email'', PStr (email u)),
                (''full_name'', PStr (full_name u)), (''is_active'', PBool (is_active u)),
                (''signup_ts'', (case signup_ts u of None \<Rightarrow> PNone | Some t \<Rightarrow> PDatetime t)),
                (''roles'', PList (map PStr (roles u)))]]"
    by (simp add: s'_def new_def User_model_dump_def)
  have inv': "store_inv lib s'"
    unfolding s'_def new_def by (rule store_inv_insert [OF inv vu])
  have "\<exists>rs. get_user lib mem_collection (username u) s' = (Inr (rs @ [response_of u]), s')"
    unfolding s'_def new_def by (rule get_user_mem [OF pr vu]) simp
  then obtain rs1 where g1: "get_user lib mem_collection (username u) s' = (Inr (rs1 @ [response_of u]), s')"
    by (elim exE)
  have "\<exists>rs. get_user lib mem_collection (email u) s' = (Inr (rs @ [response_of u]), s')"
    unfolding s'_def new_def by (rule get_user_mem [OF pr vu]) simp
  then obtain rs2 where g2: "get_user lib mem_collection (email u) s' = (Inr (rs2 @ [response_of u]), s')"
    by (elim exE)
  have mem: "\<And>rs. obj \<in> set (map (\<lambda>r. PDict (UserResponse_model_dump r)) (rs @ [response_of u]))"
    by (simp add: obj_def response_of_dump)
  from vu have ne: "username u \<noteq> []" and sl: "CHR ''/'' \<notin> set (username u)"
    by (auto simp: valid_user_def USERNAME_MIN_LENGTH_def username_char_not_slash)
  have get1: "app lib mem_collection
               \<lparr>req_method = GET, req_path = ''/users/'' @ username u, req_json = None\<rparr> s' =
             (\<lparr>status_code = 200,
               content = PList (map (\<lambda>r. PDict (UserResponse_model_dump r)) (rs1 @ [response_of u]))\<rparr>, s')"
    unfolding app_get_user [OF ne sl] g1 by (simp add: HTTP_200_OK_def)
  have a1: "\<exists>objs. app lib mem_collection
                      \<lparr>req_method = GET, req_path = ''/users/'' @ username u, req_json = None\<rparr> s' =
                    (\<lparr>status_code = 200, content = PList objs\<rparr>, s') \<and> obj \<in> set objs"
    by (rule exI [of _ "map (\<lambda>r. PDict (UserResponse_model_dump r)) (rs1 @ [response_of u])"])
       (simp only: get1 mem simp_thms)
  have a2: "email u \<noteq> [] \<and> CHR ''/'' \<notin> set (email u) \<longrightarrow>
               (\<exists>objs. app lib mem_collection
                      \<lparr>req_method = GET, req_path = ''/users/'' @ email u, req_json = None\<rparr> s' =
                    (\<lparr>status_code = 200, content = PList objs\<rparr>, s') \<and> obj \<in> set objs)"
  proof
    assume "email u \<noteq> [] \<and> CHR ''/'' \<notin> set (email u)"
    then have ne2: "email u \<noteq> []" and sl2: "CHR ''/'' \<notin> set (email u)"
      by simp_all
    have get2: "app lib mem_collection
               \<lparr>req_method = GET, req_path = ''/users/'' @ email u, req_json = None\<rparr> s' =
             (\<lparr>status_code = 200,
               content = PList (map (\<lambda>r. PDict (UserResponse_model_dump r)) (rs2 @ [response_of u]))\<rparr>, s')"
      unfolding app_get_user [OF ne2 sl2] g2 by (simp add: HTTP_200_OK_def)
    show "\<exists>objs. app lib mem_collection
                      \<lparr>req_method = GET, req_path = ''/users/'' @ email u, req_json = None\<rparr> s' =
                    (\<lparr>status_code = 200, content = PList objs\<rparr>, s') \<and> obj \<in> set objs"
      by (rule exI [of _ "map (\<lambda>r. PDict (UserResponse_model_dump r)) (rs2 @ [response_of u])"])
         (simp only: get2 mem simp_thms)
  qed
  have p1: "\<exists>rs. get_user lib mem_collection (username u) s' = (Inr rs, s') \<and>
                  \<lparr>resp_username = username u, resp_email = email u,
                   resp_full_name = full_name u, resp_roles = roles u\<rparr> \<in> set rs"
    by (rule exI [of _ "rs1 @ [response_of u]"]) (simp add: g1 response_of_def)
  have p2: "\<exists>rs. get_user lib mem_collection (email u) s' = (Inr rs, s') \<and>
                  \<lparr>resp_username = username u, resp_email = email u,
                   resp_full_name = full_name u, resp_roles = roles u\<rparr> \<in> set rs"
    by (rule exI [of _ "rs2 @ [response_of u]"]) (simp add: g2 response_of_def)
  show ?thesis
    using defaults_apply [OF v]
    by (intro exI [of _ s'] conjI post stored inv' a1 [unfolded obj_def] a2 [unfolded obj_def] p1 p2)
       simp_all
qed

lemma bob_validates:
  "User_model_validate simple_pydantic
     (PDict [(''username'', PStr '' bob_02 ''), (''email'', PStr ''bob@example.com'')]) =
   Inr \<lparr>username = ''bob_02'', email = ''bob@example.com'', full_name = [],
        is_active = True, signup_ts = None, roles = []\<rparr>"
  by code_simp

lemma one_user_store_inv: "store_inv simple_pydantic one_user_store"
  by code_simp

theorem create_then_fetch_witness:
  "stable_library simple_pydantic \<and> store_inv simple_pydantic one_user_store \<and>
   User_model_validate simple_pydantic
     (PDict [(''username'', PStr '' bob_02 ''), (''email'', PStr ''bob@example.com'')]) =
   Inr \<lparr>username = ''bob_02'', email = ''bob@example.com'', full_name = [],
        is_active = True, signup_ts = None, roles = []\<rparr> \<and>
   (\<exists>s'. app simple_pydantic mem_collection
           \<lparr>req_method = POST, req_path = ''/users/'',
            req_json = Some (PDict [(''username'', PStr '' bob_02 ''),
                                    (''email'', PStr ''bob@example.com'')])\<rparr> one_user_store =
         (\<lparr>status_code = 201,
           content = PDict [(''username'', PStr ''bob_02''), (''email'', PStr ''bob@example.com''),
                            (''full_name'', PStr []), (''is_active'', PBool True),
                            (''signup_ts'', PNone), (''roles'', PList [])]\<rparr>, s') \<and>
      docs s' = docs one_user_store @
        [[(''_id'', PObjectId (next_id one_user_store)),
          (''username'', PStr ''bob_02''), (''email'', PStr ''bob@example.com''),
          (''full_name'', PStr []), (''is_active'', PBool True),
          (''signup_ts'', PNone), (''roles'', PList [])]] \<and>
      store_inv simple_pydantic s' \<and>
      (\<exists>objs. app simple_pydantic mem_collection
              \<lparr>req_method = GET, req_path = ''/users/bob_02'', req_json = None\<rparr> s' =
            (\<lparr>status_code = 200, content = PList objs\<rparr>, s') \<and>
            PDict [(''username'', PStr ''bob_02''), (''email'', PStr ''bob@example.com''),
                   (''full_name'', PStr []), (''roles'', PList [])] \<in> set objs) \<and>
      (\<exists>objs. app simple_pydantic mem_collection
              \<lparr>req_method = GET, req_path = ''/users/bob@example.com'', req_json = None\<rparr> s' =
            (\<lparr>status_code = 200, content = PList objs\<rparr>, s') \<and>
            PDict [(''username'', PStr ''bob_02''), (''email'', PStr ''bob@example.com''),
                   (''full_name'', PStr []), (''roles'', PList [])] \<in> set objs) \<and>
      (\<exists>rs. get_user simple_pydantic mem_collection ''bob_02'' s' = (Inr rs, s') \<and>
            \<lparr>resp_username = ''bob_02'', resp_email = ''bob@example.com'',
             resp_full_name = [], resp_roles = []\<rparr> \<in> set rs) \<and>
      (\<exists>rs. get_user simple_pydantic mem_collection ''bob@example.com'' s' = (Inr rs, s') \<and>
            \<lparr>resp_username = ''bob_02'', resp_email = ''bob@example.com'',
             resp_full_name = [], resp_roles = []\<rparr> \<in> set rs))"
  using create_then_fetch [OF stable_simple_pydantic one_user_store_inv bob_validates]
  by (simp add: stable_simple_pydantic one_user_store_inv bob_validates)

text \<open>
  Through the application the claim fails for an address that contains \<open>/\<close>: the user is
  created, but the path \<open>/users/a/b@example.com\<close> is not one path segment after \<open>/users/\<close>, no
  route matches it, and the request is answered with 404.
\<close>

theorem email_with_slash_not_fetched:
  "app simple_pydantic mem_collection
     \<lparr>req_method = POST, req_path = ''/users/'',
      req_json = Some (PDict [(''username'', PStr ''alice01''),
                              (''email'', PStr ''a/b@example.com'')])\<rparr> \<lparr>docs = [], next_id = 0\<rparr> =
     (\<lparr>status_code = 201,
       content = PDict [(''username'', PStr ''alice01''), (''email'', PStr ''a/b@example.com''),
                        (''full_name'', PStr []), (''is_active'', PBool True),
                        (''signup_ts'', PNone), (''roles'', PList [])]\<rparr>,
      \<lparr>docs = [[(''_id'', PObjectId 0),
                 (''username'', PStr ''alice01''), (''email'', PStr ''a/b@example.com''),
                 (''full_name'', PStr []), (''is_active'', PBool True),
                 (''signup_ts'', PNone), (''roles'', PList [])]], next_id = 1\<rparr>) \<and>
   app simple_pydantic mem_collection
     \<lparr>req_method = GET, req_path = ''/users/a/b@example.com'', req_json = None\<rparr>
     \<lparr>docs = [[(''_id'', PObjectId 0),
                (''username'', PStr ''alice01''), (''email'', PStr ''a/b@example.com''),
                (''full_name'', PStr []), (''is_active'', PBool True),
                (''signup_ts'', PNone), (''roles'', PList [])]], next_id = 1\<rparr> =
     (\<lparr>status_code = 404, content = PDict [(''detail'', PStr ''Not Found'')]\<rparr>,
      \<lparr>docs = [[(''_id'', PObjectId 0),
                 (''username'', PStr ''alice01''), (''email'', PStr ''a/b@example.com''),
                 (''full_name'', PStr []), (''is_active'', PBool True),
                 (''signup_ts'', PNone), (''roles'', PList [])]], next_id = 1\<rparr>)"
  by code_simp

section \<open>The cross-field rule\<close>

lemma app_create_mem:
  assumes st: "stable_library lib" and wf: "mem_wf s"
    and v: "User_model_validate lib body = Inr u"
  shows "app lib mem_collection
           \<lparr>req_method = POST, req_path = ''/users/'', req_json = Some body\<rparr> s =
         (\<lparr>status_code = 201, content = PDict (User_model_dump u)\<rparr>,
          \<lparr>docs = docs s @ [(''_id'', PObjectId (next_id s)) # User_model_dump u],
           next_id = Suc (next_id s)\<rparr>)"
  by (simp add: app_create_valid [OF v] HTTP_201_CREATED_def
        create_user_mem [OF st valid_user_of_validate [OF st v] wf])

lemma anonymous_username: "User_username (PStr ''anonymous'') = Inr ''anonymous''"
  by code_simp

lemma validate_total:
  "(\<exists>errs. User_model_validate lib v = Inl errs) \<or> (\<exists>u. User_model_validate lib v = Inr u)"
  by (cases "User_model_validate lib v") simp_all

lemma anonymous_rejected:
  assumes un: "map_of d ''username'' = Some (PStr ''anonymous'')"
    and fn: "(map_of d ''full_name'' = Some (PStr f) \<and> strip_whitespace f = []) \<or>
             map_of d ''full_name'' = None"
  shows "\<exists>errs. User_model_validate lib (PDict d) = Inl errs"
proof (cases "User_model_validate lib (PDict d)")
  case (Inl errs)
  then show ?thesis by simp
next
  case (Inr u)
  note f = Inr [unfolded User_model_validate_Inr]
  from f un have u: "username u = ''anonymous''"
    by (simp add: model_field_Inr anonymous_username)
  from f fn have "full_name u = []"
    by (auto simp: model_field_Inr User_full_name_PStr split: if_splits)
  with u f show ?thesis
    by (simp add: ANONYMOUS_USERNAME_def)
qed

lemma anonymous_accepted:
  assumes un: "map_of d ''username'' = Some (PStr ''anonymous'')"
    and fn: "map_of d ''full_name'' = Some (PStr f)" "strip_whitespace f \<noteq> []"
        "length (strip_whitespace f) \<le> 100"
    and others: "model_field d ''email'' None (User_email lib) = Inr e"
        "model_field d ''is_active'' (Some True) (User_is_active lib) = Inr a"
        "model_field d ''signup_ts'' (Some None) (User_signup_ts lib) = Inr t"
        "model_field d ''roles'' (Some []) (User_roles lib) = Inr r"
  shows "User_model_validate lib (PDict d) =
           Inr \<lparr>username = ''anonymous'', email = e, full_name = strip_whitespace f,
                is_active = a, signup_ts = t, roles = r\<rparr>"
  unfolding User_model_validate_Inr
  using un fn others
  by (simp add: model_field_Inr anonymous_username User_full_name_PStr)

text \<open>
  C6 (as amended). For a body whose username is \<open>"anonymous"\<close>: when \<open>full_name\<close> is the empty
  string, consists of whitespace only, or is omitted, validation fails and the create
  request is answered with 422; when \<open>full_name\<close> is not empty after trimming and has at
  most 100 characters then, and the other fields validate, validation passes with the
  trimmed \<open>full_name\<close>, and on the in-memory store the create request is answered with 201.
\<close>

theorem anonymous_rule:
  assumes un: "map_of d ''username'' = Some (PStr ''anonymous'')"
  shows "((map_of d ''full_name'' = Some (PStr f) \<and> strip_whitespace f = []) \<or>
          map_of d ''full_name'' = None
          \<longrightarrow> (\<exists>errs. User_model_validate lib (PDict d) = Inl errs \<and>
                 app lib users \<lparr>req_method = POST, req_path = ''/users/'', req_json = Some (PDict d)\<rparr> s =
                   (request_validation_response errs, s) \<and>
                 status_code (request_validation_response errs) = 422))
       \<and> (map_of d ''full_name'' = Some (PStr f) \<and> strip_whitespace f \<noteq> [] \<and>
          length (strip_whitespace f) \<le> 100 \<and>
          model_field d ''email'' None (User_email lib) = Inr e \<and>
          model_field d ''is_active'' (Some True) (User_is_active lib) = Inr a \<and>
          model_field d ''signup_ts'' (Some None) (User_signup_ts lib) = Inr t \<and>
          model_field d ''roles'' (Some []) (User_roles lib) = Inr r
          \<longrightarrow> User_model_validate lib (PDict d) =
                Inr \<lparr>username = ''anonymous'', email = e, full_name = strip_whitespace f,
                     is_active = a, signup_ts = t, roles = r\<rparr> \<and>
              (stable_library lib \<and> mem_wf ms \<longrightarrow>
                 fst (app lib mem_collection
                        \<lparr>req_method = POST, req_path = ''/users/'', req_json = Some (PDict d)\<rparr> ms) =
                   \<lparr>status_code = 201,
                    content = PDict (User_model_dump
                      \<lparr>username = ''anonymous'', email = e, full_name = strip_whitespace f,
                       is_active = a, signup_ts = t, roles = r\<rparr>)\<rparr>))"
proof (intro conjI impI)
  assume "(map_of d ''full_name'' = Some (PStr f) \<and> strip_whitespace f = []) \<or>
          map_of d ''full_name'' = None"
  from anonymous_rejected [OF un this, of lib] obtain errs where
    errs: "User_model_validate lib (PDict d) = Inl errs"
    by (elim exE)
  show "\<exists>errs. User_model_validate lib (PDict d) = Inl errs \<and>
                 app lib users \<lparr>req_method = POST, req_path = ''/users/'', req_json = Some (PDict d)\<rparr> s =
                   (request_validation_response errs, s) \<and>
                 status_code (request_validation_response errs) = 422"
    by (rule exI [of _ errs]) (simp add: errs app_create_invalid [OF errs] status_422)
next
  assume h: "map_of d ''full_name'' = Some (PStr f) \<and> strip_whitespace f \<noteq> [] \<and>
          length (strip_whitespace f) \<le> 100 \<and>
          model_field d ''email'' None (User_email lib) = Inr e \<and>
          model_field d ''is_active'' (Some True) (User_is_active lib) = Inr a \<and>
          model_field d ''signup_ts'' (Some None) (User_signup_ts lib) = Inr t \<and>
          model_field d ''roles'' (Some []) (User_roles lib) = Inr r"
  then show v: "User_model_validate lib (PDict d) =
                Inr \<lparr>username = ''anonymous'', email = e, full_name = strip_whitespace f,
                     is_active = a, signup_ts = t, roles = r\<rparr>"
    by (intro anonymous_accepted [OF un]) simp_all
  assume "stable_library lib \<and> mem_wf ms"
  then have st: "stable_library lib" and wf: "mem_wf ms"
    by simp_all
  show "fst (app lib mem_collection
                        \<lparr>req_method = POST, req_path = ''/users/'', req_json = Some (PDict d)\<rparr> ms) =
                   \<lparr>status_code = 201,
                    content = PDict (User_model_dump
                      \<lparr>username = ''anonymous'', email = e, full_name = strip_whitespace f,
                       is_active = a, signup_ts = t, roles = r\<rparr>)\<rparr>"
    by (simp add: app_create_mem [OF st wf v])
qed

lemma anonymous_blank_body:
  "User_model_validate simple_pydantic
     (PDict [(''username'', PStr ''anonymous''), (''email'', PStr ''alice@example.com''),
             (''full_name'', PStr '' '')]) =
   Inl [LineError [] ''value_error''
          ''Value error, Either full_name or a non-anonymous username must be provided'']"
  by code_simp

text \<open>
  The claim as stated fails for a \<open>full_name\<close> that is not empty but blank: it is trimmed to
  the empty string before the cross-field rule runs, and the request is rejected.
\<close>

theorem anonymous_blank_full_name_rejected:
  "'' '' \<noteq> [] \<and>
   User_model_validate simple_pydantic
     (PDict [(''username'', PStr ''anonymous''), (''email'', PStr ''alice@example.com''),
             (''full_name'', PStr '' '')]) =
   Inl [LineError [] ''value_error''
          ''Value error, Either full_name or a non-anonymous username must be provided''] \<and>
   app simple_pydantic mem_collection
     \<lparr>req_method = POST, req_path = ''/users/'',
      req_json = Some (PDict [(''username'', PStr ''anonymous''),
                              (''email'', PStr ''alice@example.com''),
                              (''full_name'', PStr '' '')])\<rparr> \<lparr>docs = [], next_id = 0\<rparr> =
   (request_validation_response
      [LineError [] ''value_error''
         ''Value error, Either full_name or a non-anonymous username must be provided''],
    \<lparr>docs = [], next_id = 0\<rparr>)"
  by (simp add: anonymous_blank_body app_create_invalid [OF anonymous_blank_body])

lemma named_anonymous_fields:
  "model_field [(''username'', PStr ''anonymous''), (''email'', PStr ''alice@example.com''),
                (''full_name'', PStr ''Anonymous User'')] ''email'' None (User_email simple_pydantic) =
     Inr ''alice@example.com''"
  "model_field [(''username'', PStr ''anonymous''), (''email'', PStr ''alice@example.com''),
                (''full_name'', PStr ''Anonymous User'')] ''is_active'' (Some True)
     (User_is_active simple_pydantic) = Inr True"
  "model_field [(''username'', PStr ''anonymous''), (''email'', PStr ''alice@example.com''),
                (''full_name'', PStr ''Anonymous User'')] ''signup_ts'' (Some None)
     (User_signup_ts simple_pydantic) = Inr None"
  "model_field [(''username'', PStr ''anonymous''), (''email'', PStr ''alice@example.com''),
                (''full_name'', PStr ''Anonymous User'')] ''roles'' (Some [])
     (User_roles simple_pydantic) = Inr []"
  "strip_whitespace ''Anonymous User'' = ''Anonymous User''"
  "strip_whitespace [] = []"
  by code_simp+

lemma empty_store_wf: "mem_wf \<lparr>docs = [], next_id = 0\<rparr>"
  by (simp add: mem_wf_def)

theorem anonymous_rule_witness:
  "(\<exists>errs. User_model_validate simple_pydantic
        (PDict [(''username'', PStr ''anonymous''), (''email'', PStr ''alice@example.com''),
                (''full_name'', PStr [])]) = Inl errs \<and>
      app simple_pydantic mem_collection
        \<lparr>req_method = POST, req_path = ''/users/'',
         req_json = Some (PDict [(''username'', PStr ''anonymous''),
                                 (''email'', PStr ''alice@example.com''),
                                 (''full_name'', PStr [])])\<rparr> \<lparr>docs = [], next_id = 0\<rparr> =
        (request_validation_response errs, \<lparr>docs = [], next_id = 0\<rparr>) \<and>
      status_code (request_validation_response errs) = 422) \<and>
   User_model_validate simple_pydantic
     (PDict [(''username'', PStr ''anonymous''), (''email'', PStr ''alice@example.com''),
             (''full_name'', PStr ''Anonymous User'')]) =
     Inr \<lparr>username = ''anonymous'', email = ''alice@example.com'', full_name = ''Anonymous User'',
          is_active = True, signup_ts = None, roles = []\<rparr> \<and>
   fst (app simple_pydantic mem_collection
          \<lparr>req_method = POST, req_path = ''/users/'',
           req_json = Some (PDict [(''username'', PStr ''anonymous''),
                                   (''email'', PStr ''alice@example.com''),
                                   (''full_name'', PStr ''Anonymous User'')])\<rparr>
          \<lparr>docs = [], next_id = 0\<rparr>) =
     \<lparr>status_code = 201,
      content = PDict (User_model_dump
        \<lparr>username = ''anonymous'', email = ''alice@example.com'', full_name = ''Anonymous User'',
         is_active = True, signup_ts = None, roles = []\<rparr>)\<rparr>"
  using anonymous_rule [where d = "[(''username'', PStr ''anonymous''),
            (''email'', PStr ''alice@example.com''), (''full_name'', PStr [])]"
          and f = "[]" and lib = simple_pydantic and users = mem_collection
          and s = "\<lparr>docs = [], next_id = 0\<rparr>"]
        anonymous_rule [where d = "[(''username'', PStr ''anonymous''),
            (''email'', PStr ''alice@example.com''), (''full_name'', PStr ''Anonymous User'')]"
          and f = "''Anonymous User''" and lib = simple_pydantic
          and e = "''alice@example.com''" and a = True and t = None and r = "[]"
          and ms = "\<lparr>docs = [], next_id = 0\<rparr>"]
  by (simp add: named_anonymous_fields stable_simple_pydantic empty_store_wf)

section \<open>The roles rule\<close>

lemma User_model_validate_roles_Inl:
  assumes "model_field d ''roles'' (Some []) (User_roles lib) = Inl es"
  shows "\<exists>pre. User_model_validate lib (PDict d) = Inl (pre @ es)"
  by (rule exI [of _ "errors_of (model_field d ''username'' None User_username) @
                     errors_of (model_field d ''email'' None (User_email lib)) @
                     errors_of (model_field d ''full_name'' (Some []) User_full_name) @
                     errors_of (model_field d ''is_active'' (Some True) (User_is_active lib)) @
                     errors_of (model_field d ''signup_ts'' (Some None) (User_signup_ts lib))"])
     (simp add: User_model_validate_PDict Let_def assms errors_of_def)

lemma model_field_roles:
  "map_of d ''roles'' = Some (PList (map PStr rs)) \<Longrightarrow>
   model_field d ''roles'' (Some []) (User_roles lib) =
     (if set (map strip_whitespace rs) \<subseteq> set ALLOWED_ROLES then Inr (map strip_whitespace rs)
      else Inl [LineError [Key ''roles''] ''value_error''
                 (''Value error, Invalid roles: '' @
                  join '', '' (set_iteration lib
                    (filter (\<lambda>r. r \<notin> set ALLOWED_ROLES) (map strip_whitespace rs))) @
                  ''. Must be one of: '' @ join '', '' (set_iteration lib ALLOWED_ROLES))])"
  by (simp add: model_field_def User_roles_PList at_loc_def)

lemma allowed_roles_set: "set ALLOWED_ROLES = {''admin'', ''user'', ''editor'', ''viewer''}"
  by (simp add: ALLOWED_ROLES_def)

lemma map_strip_allowed: "set rs \<subseteq> set ALLOWED_ROLES \<Longrightarrow> map strip_whitespace rs = rs"
  by (induction rs) (simp_all add: allowed_roles_trimmed)

lemma iterates_sets_remdups: "iterates_sets remdups"
  by (simp add: iterates_sets_def)

lemma simple_pydantic_iterates: "iterates_sets (set_iteration simple_pydantic)"
  by (simp add: simple_pydantic_def iterates_sets_remdups)

text \<open>
  C8 (as amended). For a body whose \<open>roles\<close> is a list of strings: the entries are trimmed
  first. When a trimmed entry is outside \<open>{admin, user, editor, viewer}\<close>, validation fails
  with an error at \<open>roles\<close> whose message is \<open>Invalid roles:\<close> followed by the invalid
  (trimmed) values and \<open>Must be one of:\<close> followed by the allowed roles, each list joined by
  \<open>", "\<close> in the order in which the set is iterated; whatever that order, every invalid value
  and every allowed role is listed once. The create request is answered with 422. When all
  trimmed entries are allowed the field validates to the trimmed list; a list drawn from the
  allowed set validates to itself.
\<close>

theorem roles_rule:
  assumes ro: "map_of d ''roles'' = Some (PList (map PStr rs))"
  shows "(\<not> set (map strip_whitespace rs) \<subseteq> set ALLOWED_ROLES \<longrightarrow>
           (\<exists>errs inv allowed. User_model_validate lib (PDict d) = Inl errs \<and>
              LineError [Key ''roles''] ''value_error''
                (''Value error, Invalid roles: '' @ join '', '' inv @
                 ''. Must be one of: '' @ join '', '' allowed) \<in> set errs \<and>
              (iterates_sets (set_iteration lib) \<longrightarrow>
                 distinct inv \<and>
                 set inv = set (map strip_whitespace rs) - {''admin'', ''user'', ''editor'', ''viewer''} \<and>
                 distinct allowed \<and>
                 set allowed = {''admin'', ''user'', ''editor'', ''viewer''}) \<and>
              app lib users \<lparr>req_method = POST, req_path = ''/users/'', req_json = Some (PDict d)\<rparr> s =
                (request_validation_response errs, s) \<and>
              status_code (request_validation_response errs) = 422))
       \<and> (set (map strip_whitespace rs) \<subseteq> set ALLOWED_ROLES \<longrightarrow>
            model_field d ''roles'' (Some []) (User_roles lib) = Inr (map strip_whitespace rs))
       \<and> (set rs \<subseteq> {''admin'', ''user'', ''editor'', ''viewer''} \<longrightarrow>
            model_field d ''roles'' (Some []) (User_roles lib) = Inr rs)"
proof (intro conjI impI)
  assume bad: "\<not> set (map strip_whitespace rs) \<subseteq> set ALLOWED_ROLES"
  define inv where
    "inv = set_iteration lib (filter (\<lambda>r. r \<notin> set ALLOWED_ROLES) (map strip_whitespace rs))"
  define allowed where "allowed = set_iteration lib ALLOWED_ROLES"
  define e where "e = LineError [Key ''roles''] ''value_error''
                (''Value error, Invalid roles: '' @ join '', '' inv @
                 ''. Must be one of: '' @ join '', '' allowed)"
  have "model_field d ''roles'' (Some []) (User_roles lib) = Inl [e]"
    using bad by (simp add: model_field_roles [OF ro] e_def inv_def allowed_def)
  from User_model_validate_roles_Inl [OF this] obtain pre where
    errs: "User_model_validate lib (PDict d) = Inl (pre @ [e])"
    by (elim exE)
  have i: "iterates_sets (set_iteration lib) \<longrightarrow>
             distinct inv \<and>
             set inv = set (map strip_whitespace rs) - {''admin'', ''user'', ''editor'', ''viewer''} \<and>
             distinct allowed \<and>
             set allowed = {''admin'', ''user'', ''editor'', ''viewer''}"
  proof
    assume "iterates_sets (set_iteration lib)"
    then have d: "\<And>xs. distinct (set_iteration lib xs)"
      and m: "\<And>xs. set (set_iteration lib xs) = set xs"
      by (simp_all add: iterates_sets_def)
    have "set (filter (\<lambda>r. r \<notin> set ALLOWED_ROLES) (map strip_whitespace rs)) =
          set (map strip_whitespace rs) - set ALLOWED_ROLES"
      by auto
    then show "distinct inv \<and>
             set inv = set (map strip_whitespace rs) - {''admin'', ''user'', ''editor'', ''viewer''} \<and>
             distinct allowed \<and>
             set allowed = {''admin'', ''user'', ''editor'', ''viewer''}"
      by (simp only: inv_def allowed_def d m allowed_roles_set simp_thms)
  qed
  have "User_model_validate lib (PDict d) = Inl (pre @ [e]) \<and>
        e \<in> set (pre @ [e]) \<and>
        (iterates_sets (set_iteration lib) \<longrightarrow>
             distinct inv \<and>
             set inv = set (map strip_whitespace rs) - {''admin'', ''user'', ''editor'', ''viewer''} \<and>
             distinct allowed \<and>
             set allowed = {''admin'', ''user'', ''editor'', ''viewer''}) \<and>
        app lib users \<lparr>req_method = POST, req_path = ''/users/'', req_json = Some (PDict d)\<rparr> s =
          (request_validation_response (pre @ [e]), s) \<and>
        status_code (request_validation_response (pre @ [e])) = 422"
    using i by (simp only: errs app_create_invalid [OF errs] status_422 simp_thms, simp)
  then show "\<exists>errs inv allowed. User_model_validate lib (PDict d) = Inl errs \<and>
              LineError [Key ''roles''] ''value_error''
                (''Value error, Invalid roles: '' @ join '', '' inv @
                 ''. Must be one of: '' @ join '', '' allowed) \<in> set errs \<and>
              (iterates_sets (set_iteration lib) \<longrightarrow>
                 distinct inv \<and>
                 set inv = set (map strip_whitespace rs) - {''admin'', ''user'', ''editor'', ''viewer''} \<and>
                 distinct allowed \<and>
                 set allowed = {''admin'', ''user'', ''editor'', ''viewer''}) \<and>
              app lib users \<lparr>req_method = POST, req_path = ''/users/'', req_json = Some (PDict d)\<rparr> s =
                (request_validation_response errs, s) \<and>
              status_code (request_validation_response errs) = 422"
    unfolding e_def
    by (intro exI [of _ "pre @ [e]", unfolded e_def] exI [of _ inv] exI [of _ allowed])
next
  assume "set (map strip_whitespace rs) \<subseteq> set ALLOWED_ROLES"
  then show "model_field d ''roles'' (Some []) (User_roles lib) = Inr (map strip_whitespace rs)"
    by (simp add: model_field_roles [OF ro])
next
  assume "set rs \<subseteq> {''admin'', ''user'', ''editor'', ''viewer''}"
  then have a: "set rs \<subseteq> set ALLOWED_ROLES"
    by (simp only: allowed_roles_set)
  then have "map strip_whitespace rs = rs"
    by (rule map_strip_allowed)
  with a show "model_field d ''roles'' (Some []) (User_roles lib) = Inr rs"
    by (simp add: model_field_roles [OF ro])
qed

lemma strip_examples:
  "map strip_whitespace [''admin'', ''root'', ''x'', ''root''] = [''admin'', ''root'', ''x'', ''root'']"
  "map strip_whitespace [''admin'', ''viewer''] = [''admin'', ''viewer'']"
  by code_simp+

theorem roles_rule_witness:
  "(\<exists>errs inv allowed. User_model_validate simple_pydantic
        (PDict [(''username'', PStr ''alice01''), (''email'', PStr ''alice@example.com''),
                (''roles'', PList [PStr ''admin'', PStr ''root'', PStr ''x'', PStr ''root''])]) =
        Inl errs \<and>
      LineError [Key ''roles''] ''value_error''
        (''Value error, Invalid roles: '' @ join '', '' inv @
         ''. Must be one of: '' @ join '', '' allowed) \<in> set errs \<and>
      distinct inv \<and> set inv = {''root'', ''x''} \<and>
      distinct allowed \<and> set allowed = {''admin'', ''user'', ''editor'', ''viewer''} \<and>
      app simple_pydantic mem_collection
        \<lparr>req_method = POST, req_path = ''/users/'',
         req_json = Some (PDict [(''username'', PStr ''alice01''),
                                 (''email'', PStr ''alice@example.com''),
                                 (''roles'', PList [PStr ''admin'', PStr ''root'', PStr ''x'',
                                                    PStr ''root''])])\<rparr>
        \<lparr>docs = [], next_id = 0\<rparr> =
        (request_validation_response errs, \<lparr>docs = [], next_id = 0\<rparr>) \<and>
      status_code (request_validation_response errs) = 422) \<and>
   model_field [(''username'', PStr ''alice01''), (''email'', PStr ''alice@example.com''),
                (''roles'', PList [PStr ''admin'', PStr ''viewer''])]
     ''roles'' (Some []) (User_roles simple_pydantic) = Inr [''admin'', ''viewer'']"
proof -
  have s1: "set [''admin'', ''root'', ''x'', ''root''] - {''admin'', ''user'', ''editor'', ''viewer''} =
            {''root'', ''x''}"
    by auto
  have n1: "\<not> set [''admin'', ''root'', ''x'', ''root''] \<subseteq> set ALLOWED_ROLES"
    by (simp add: ALLOWED_ROLES_def)
  have s2: "set [''admin'', ''viewer''] \<subseteq> {''admin'', ''user'', ''editor'', ''viewer''}"
    by simp
  show ?thesis
    using roles_rule [where d = "[(''username'', PStr ''alice01''), (''email'', PStr ''alice@example.com''),
                (''roles'', PList [PStr ''admin'', PStr ''root'', PStr ''x'', PStr ''root''])]"
            and rs = "[''admin'', ''root'', ''x'', ''root'']" and lib = simple_pydantic
            and users = mem_collection and s = "\<lparr>docs = [], next_id = 0\<rparr>"]
          roles_rule [where d = "[(''username'', PStr ''alice01''), (''email'', PStr ''alice@example.com''),
                (''roles'', PList [PStr ''admin'', PStr ''viewer''])]"
            and rs = "[''admin'', ''viewer'']" and lib = simple_pydantic
            and users = mem_collection and s = "\<lparr>docs = [], next_id = 0\<rparr>"]
    unfolding strip_examples s1
    using n1 s2 simple_pydantic_iterates by simp
qed

lemma untrimmed_role_body:
  "User_model_validate simple_pydantic
     (PDict [(''username'', PStr ''alice01''), (''email'', PStr ''alice@example.com''),
             (''roles'', PList [PStr '' admin''])]) =
   Inr \<lparr>username = ''alice01'', email = ''alice@example.com'', full_name = [],
        is_active = True, signup_ts = None, roles = [''admin'']\<rparr>"
  by code_simp

text \<open>
  The claim as stated fails for an entry that is outside the allowed set only by surrounding
  whitespace: \<open>" admin"\<close> is trimmed to \<open>"admin"\<close> before \<open>validate_roles\<close> runs, and the user
  is created.
\<close>

theorem untrimmed_role_accepted:
  "'' admin'' \<notin> set ALLOWED_ROLES \<and>
   User_model_validate simple_pydantic
     (PDict [(''username'', PStr ''alice01''), (''email'', PStr ''alice@example.com''),
             (''roles'', PList [PStr '' admin''])]) =
   Inr \<lparr>username = ''alice01'', email = ''alice@example.com'', full_name = [],
        is_active = True, signup_ts = None, roles = [''admin'']\<rparr> \<and>
   fst (app simple_pydantic mem_collection
     \<lparr>req_method = POST, req_path = ''/users/'',
      req_json = Some (PDict [(''username'', PStr ''alice01''),
                              (''email'', PStr ''alice@example.com''),
                              (''roles'', PList [PStr '' admin''])])\<rparr> \<lparr>docs = [], next_id = 0\<rparr>) =
   \<lparr>status_code = 201,
    content = PDict [(''username'', PStr ''alice01''), (''email'', PStr ''alice@example.com''),
                     (''full_name'', PStr []), (''is_active'', PBool True),
                     (''signup_ts'', PNone), (''roles'', PList [PStr ''admin''])]\<rparr>"
  by (simp add: untrimmed_role_body ALLOWED_ROLES_def User_model_dump_def
        app_create_mem [OF stable_simple_pydantic empty_store_wf untrimmed_role_body])

section \<open>Deleting and listing\<close>

lemma remove_first_length:
  "list_ex P xs \<Longrightarrow> Suc (length (remove_first P xs)) = length xs"
  by (induction xs) auto

lemma delete_one_mem:
  "delete_one mem_collection q s = (Inr (), s\<lparr>docs := remove_first (matches q) (docs s)\<rparr>)"
  by (simp add: mem_collection_def mem_delete_one_def)

text \<open>
  Deleting by an e-mail address that a stored document has removes exactly one document, the
  first that matches, and returns the confirmation message with the address.
\<close>

theorem delete_removes_one:
  assumes "list_ex (matches (QEq ''email'' (PStr e))) (docs s)"
  shows "\<exists>s'. delete_user lib mem_collection e s =
           (Inr (PDict [(''message'', PStr (''User with email '' @ e @ '' deleted successfully''))]), s') \<and>
         docs s' = remove_first (matches (QEq ''email'' (PStr e))) (docs s) \<and>
         Suc (length (docs s')) = length (docs s)"
proof -
  define q where "q = QEq ''email'' (PStr e)"
  define s' where "s' = s\<lparr>docs := remove_first (matches q) (docs s)\<rparr>"
  from assms have ne: "filter (matches q) (docs s) \<noteq> []"
    by (simp add: q_def filter_empty_conv list_ex_iff)
  have d: "delete_user lib mem_collection e s =
           (Inr (PDict [(''message'', PStr (''User with email '' @ e @ '' deleted successfully''))]), s')"
    unfolding delete_user_def Let_def q_def [symmetric] find_many_mem delete_one_mem s'_def
    using ne by simp
  have l: "Suc (length (docs s')) = length (docs s)"
    using assms by (simp add: s'_def q_def remove_first_length)
  show ?thesis
    by (rule exI [of _ s']) (simp add: d l, simp add: s'_def q_def)
qed

theorem delete_removes_one_witness:
  "list_ex (matches (QEq ''email'' (PStr ''alice@example.com''))) (docs one_user_store) \<and>
   (\<exists>s'. delete_user simple_pydantic mem_collection ''alice@example.com'' one_user_store =
           (Inr (PDict [(''message'',
                   PStr ''User with email alice@example.com deleted successfully'')]), s') \<and>
         docs s' = [] \<and> length (docs one_user_store) = 1)"
proof -
  have m: "list_ex (matches (QEq ''email'' (PStr ''alice@example.com''))) (docs one_user_store)"
    by (simp add: one_user_store_def alice_doc_def)
  have r: "remove_first (matches (QEq ''email'' (PStr ''alice@example.com''))) (docs one_user_store) = []"
    by (simp add: one_user_store_def alice_doc_def)
  have l: "length (docs one_user_store) = 1"
    by (simp add: one_user_store_def)
  from delete_removes_one [OF m, of simple_pydantic] obtain s' where
    a: "delete_user simple_pydantic mem_collection ''alice@example.com'' one_user_store =
          (Inr (PDict [(''message'',
             PStr (''User with email '' @ ''alice@example.com'' @ '' deleted successfully''))]), s')"
    and b: "docs s' = remove_first (matches (QEq ''email'' (PStr ''alice@example.com'')))
              (docs one_user_store)"
    by (elim exE conjE)
  have "delete_user simple_pydantic mem_collection ''alice@example.com'' one_user_store =
           (Inr (PDict [(''message'',
                   PStr ''User with email alice@example.com deleted successfully'')]), s') \<and>
         docs s' = [] \<and> length (docs one_user_store) = 1"
    using a b by (simp add: r l)
  then have "\<exists>s'. delete_user simple_pydantic mem_collection ''alice@example.com'' one_user_store =
           (Inr (PDict [(''message'',
                   PStr ''User with email alice@example.com deleted successfully'')]), s') \<and>
         docs s' = [] \<and> length (docs one_user_store) = 1"
    by (rule exI [of _ s'])
  with m show ?thesis
    by (rule conjI)
qed

text \<open>
  Listing an empty collection is answered with 200 and the empty list; an exception raised
  by the store while listing is answered with 500 and the exception's message as detail.
\<close>

theorem list_store_outcomes:
  "(find_many users QAll s = (Inr [], s1) \<longrightarrow>
      app lib users \<lparr>req_method = GET, req_path = ''/users/'', req_json = b\<rparr> s =
        (\<lparr>status_code = 200, content = PList []\<rparr>, s1)) \<and>
   (find_many users QAll s = (Inl (Error m), s1) \<longrightarrow>
      app lib users \<lparr>req_method = GET, req_path = ''/users/'', req_json = b\<rparr> s =
        (\<lparr>status_code = 500, content = PDict [(''detail'', PStr m)]\<rparr>, s1))"
  by (simp add: app_get_users get_users_def str_exn_def error_response_def HTTP_200_OK_def
        HTTP_500_INTERNAL_SERVER_ERROR_def)

theorem list_store_outcomes_witness:
  "app simple_pydantic mem_collection
     \<lparr>req_method = GET, req_path = ''/users/'', req_json = None\<rparr> \<lparr>docs = [], next_id = 0\<rparr> =
     (\<lparr>status_code = 200, content = PList []\<rparr>, \<lparr>docs = [], next_id = 0\<rparr>) \<and>
   app simple_pydantic failing_collection
     \<lparr>req_method = GET, req_path = ''/users/'', req_json = None\<rparr> () =
     (\<lparr>status_code = 500, content = PDict [(''detail'', PStr ''Database error'')]\<rparr>, ())"
  using list_store_outcomes [of mem_collection "\<lparr>docs = [], next_id = 0\<rparr>"
          "\<lparr>docs = [], next_id = 0\<rparr>" simple_pydantic None "[]"]
        list_store_outcomes [of failing_collection "()" "()" simple_pydantic None "''Database error''"]
  by (simp add: find_many_mem failing_collection_def)

end
